theory Spec2Isabelle
  imports Complex_Main
begin

section \<open>JavaScript values seen by the analysis flow\<close>

text \<open>
  The body of a backend response, as \<open>response.json()\<close> delivers it. A JSON number
  is a real number (every finite double is one). \<open>JNull\<close> is also the \<open>null\<close> a React
  state cell starts with.
\<close>

datatype json =
    JNull
  | JBool bool
  | JNum real
  | JStr string
  | JArr "json list"
  | JObj "(string \<times> json) list"

text \<open>
  The decimal digits of a natural number: the text of \<open>response.status\<close>, a three-digit
  HTTP status code, in a template literal.
\<close>

fun digits :: "nat \<Rightarrow> string" where
  "digits n =
     (if n < 10 then [''0123456789'' ! n]
      else digits (n div 10) @ [''0123456789'' ! (n mod 10)])"

declare digits.simps [simp del]

text \<open>\<open>ToBoolean\<close> is the truthiness test behind \<open>!x\<close>, \<open>x || y\<close> and \<open>x && y\<close>.\<close>

fun ToBoolean :: "json \<Rightarrow> bool" where
  "ToBoolean JNull = False"
| "ToBoolean (JBool b) = b"
| "ToBoolean (JNum n) = (n \<noteq> 0)"
| "ToBoolean (JStr s) = (s \<noteq> [])"
| "ToBoolean (JArr xs) = True"
| "ToBoolean (JObj kvs) = True"

text \<open>
  A value caught by \<open>catch\<close>: an \<open>Error\<close> object with its message, or a value that is
  not an instance of \<open>Error\<close> (and has no \<open>message\<close>).
\<close>

datatype exn = Error string | NonError

text \<open>
  What the component takes from where it runs. \<open>NEXT_PUBLIC_API_URL\<close> is the
  configured backend URL, \<open>None\<close> when it is not set. The other two fields are the
  JavaScript engine's, whose texts the program does not choose:
  \<open>ToString v\<close> is the outcome of converting a value that is not a string to a string
  (the text, or the error thrown, as for an object with an own \<open>toString\<close> that is not
  a function), and \<open>TypeError_message x\<close> is the message of the TypeError thrown when a
  property of the variable \<open>x\<close> is read while \<open>x\<close> is \<open>null\<close>.
\<close>

record environment =
  NEXT_PUBLIC_API_URL :: "string option"
  ToString :: "json \<Rightarrow> exn + string"
  TypeError_message :: "string \<Rightarrow> string"

text \<open>
  The conversion that \<open>new Error(x)\<close> applies to its argument: a string is itself,
  anything else is left to the engine.
\<close>

definition message_text :: "environment \<Rightarrow> json \<Rightarrow> exn + string" where
  "message_text env v = (case v of JStr s \<Rightarrow> Inr s | _ \<Rightarrow> ToString env v)"

text \<open>
  The property read \<open>x.detail\<close>, \<open>x\<close> being the name of the variable. Reading a property
  of \<open>null\<close> throws a TypeError; an object gives the value stored under the key (the
  last one, when the JSON text repeated the key) or \<open>undefined\<close> (\<open>None\<close>); every other
  JSON value has no such property.
\<close>

fun detail :: "environment \<Rightarrow> string \<Rightarrow> json \<Rightarrow> exn + json option" where
  "detail env x JNull = Inl (Error (TypeError_message env x))"
| "detail env x (JObj kvs) = Inr (map_of (rev kvs) ''detail'')"
| "detail env x (JBool b) = Inr None"
| "detail env x (JNum n) = Inr None"
| "detail env x (JStr s) = Inr None"
| "detail env x (JArr xs) = Inr None"

text \<open>\<open>x || 'literal'\<close> for a possibly undefined JSON value, and for a possibly undefined string.\<close>

definition or_literal :: "json option \<Rightarrow> string \<Rightarrow> json" where
  "or_literal x lit =
     (case x of None \<Rightarrow> JStr lit | Some v \<Rightarrow> if ToBoolean v then v else JStr lit)"

definition or_string :: "string option \<Rightarrow> string \<Rightarrow> string" where
  "or_string x lit = (case x of None \<Rightarrow> lit | Some s \<Rightarrow> if s \<noteq> [] then s else lit)"

section \<open>Files, requests and responses\<close>

record File =
  name :: string
  type :: string

datatype form_value = Blob File | Text string

record Request =
  url :: string
  "method" :: string
  body :: "(string \<times> form_value) list"

text \<open>
  What the program observes of a response: \<open>response.ok\<close>, \<open>response.status\<close> and the
  outcome of \<open>await response.json()\<close>, which rejects when the body is not JSON.
  A \<open>fetch_result\<close> is the outcome of \<open>await fetch(...)\<close>, which rejects when the
  request itself fails.
\<close>

record Response =
  ok :: bool
  status :: nat
  json :: "exn + json"

type_synonym fetch_result = "exn + Response"

text \<open>What a handler does to the outside world. Console logging is left out.\<close>

datatype effect = Fetch Request | Alert string

fun is_Fetch :: "effect \<Rightarrow> bool" where
  "is_Fetch (Fetch r) = True"
| "is_Fetch (Alert m) = False"

section \<open>The state cells of the component\<close>

text \<open>
  The \<open>useState\<close> cells that the upload/analyze/results flow reads and writes. The type
  annotations \<open>View\<close> and \<open>AnalysisState\<close> are erased when the program runs, so both
  cells hold strings; the set below is what the annotation of the second allows.
\<close>

record state =
  currentView :: string
  selectedFile :: "File option"
  analysisState :: string
  analysisResults :: json

definition AnalysisState :: "string set" where
  "AnalysisState = {''upload'', ''analyzing'', ''results''}"

definition initial :: state where
  "initial = \<lparr>currentView = ''home'', selectedFile = None,
               analysisState = ''upload'', analysisResults = JNull\<rparr>"

section \<open>First implementation of StatementAnalysis\<close>

text \<open>
  The component of \<open>frontend/app/components/StatementAnalysis.tsx\<close> that takes
  \<open>favorites\<close>, \<open>toggleFavorite\<close> and \<open>navigate\<close>. Its views are \<open>home\<close>,
  \<open>phonepe-analysis\<close>, \<open>kotak-analysis\<close> and the settings and list screens. Its cells
  for the search box, the profile and \<open>mounted\<close> play no part in the flow and are left
  out.
\<close>

definition strip_trailing_slash :: "string \<Rightarrow> string" where
  "strip_trailing_slash u = (if u \<noteq> [] \<and> last u = CHR ''/'' then butlast u else u)"

definition backendUrl :: "environment \<Rightarrow> string" where
  "backendUrl env =
     strip_trailing_slash (or_string (NEXT_PUBLIC_API_URL env) ''http://localhost:8000'')"

definition platform :: "string \<Rightarrow> string" where
  "platform view =
     (if view = ''phonepe-analysis'' then ''phonepe''
      else if view = ''kotak-analysis'' then ''kotak''
      else ''phonepe'')"

text \<open>
  \<open>analyzeStatement\<close> is an async function. It runs up to \<open>await fetch(...)\<close> inside the
  event handler that called it (\<open>analyzeStatement_begin\<close>: it has set the state to
  \<open>analyzing\<close> and issued the request) and is suspended there. When the backend has
  answered, the rest runs as a separate step (\<open>analyzeStatement_resume\<close>); other
  handlers can run between the two. No state cell is written between \<open>await fetch\<close> and
  \<open>await response.json()\<close>, so the two waits are one step.
\<close>

definition analyzeStatement_begin ::
  "environment \<Rightarrow> File \<Rightarrow> state \<Rightarrow> state \<times> effect list" where
  "analyzeStatement_begin env file s =
     (let s1 = s\<lparr>analysisState := ''analyzing''\<rparr>;
          formData = [(''file'', Blob file), (''platform'', Text (platform (currentView s)))]
      in (s1, [Fetch \<lparr>url = backendUrl env @ ''/analyze'',
                       method = ''POST'', body = formData\<rparr>]))"

text \<open>The \<open>try\<close> block after the request was sent: \<open>Inl\<close> is the value thrown.\<close>

definition analyze_try :: "environment \<Rightarrow> fetch_result \<Rightarrow> exn + json" where
  "analyze_try env r =
     (case r of
        Inl e \<Rightarrow> Inl e
      | Inr response \<Rightarrow>
          (case json response of
             Inl e \<Rightarrow> Inl e
           | Inr results \<Rightarrow>
               if \<not> ok response then
                 (case detail env ''results'' results of
                    Inl e \<Rightarrow> Inl e
                  | Inr d \<Rightarrow>
                      (case message_text env (or_literal d ''Failed to analyze statement'') of
                         Inl e \<Rightarrow> Inl e
                       | Inr m \<Rightarrow> Inl (Error m)))
               else Inr results))"

definition analyzeStatement_resume ::
  "environment \<Rightarrow> fetch_result \<Rightarrow> state \<Rightarrow> state \<times> effect list" where
  "analyzeStatement_resume env r s =
     (case analyze_try env r of
        Inr results \<Rightarrow> (s\<lparr>analysisResults := results, analysisState := ''results''\<rparr>, [])
      | Inl error \<Rightarrow>
          (s\<lparr>analysisState := ''upload''\<rparr>,
           [Alert (''Analysis failed: '' @
              (case error of Error m \<Rightarrow> m | NonError \<Rightarrow> ''Unknown error''))]))"

text \<open>One whole call of \<open>analyzeStatement\<close> with no other handler in between.\<close>

definition analyzeStatement ::
  "environment \<Rightarrow> File \<Rightarrow> fetch_result \<Rightarrow> state \<Rightarrow> state \<times> effect list" where
  "analyzeStatement env file r s =
     (let (s1, e1) = analyzeStatement_begin env file s;
          (s2, e2) = analyzeStatement_resume env r s1
      in (s2, e1 @ e2))"

text \<open>
  The handlers take \<open>files?.[0]\<close> of the event, \<open>None\<close> when the list is empty. What they
  return is the state when the handler is suspended in \<open>await analyzeStatement(file)\<close>;
  nothing follows that \<open>await\<close>.
\<close>

definition handleFileSelect ::
  "environment \<Rightarrow> File option \<Rightarrow> state \<Rightarrow> state \<times> effect list" where
  "handleFileSelect env file s =
     (case file of
        Some f \<Rightarrow>
          if type f = ''application/pdf''
          then analyzeStatement_begin env f (s\<lparr>selectedFile := Some f\<rparr>)
          else (s\<lparr>analysisState := ''upload''\<rparr>, [Alert ''Please select a valid PDF file''])
      | None \<Rightarrow> (s\<lparr>analysisState := ''upload''\<rparr>, [Alert ''Please select a valid PDF file'']))"

definition handleDrop ::
  "environment \<Rightarrow> File option \<Rightarrow> state \<Rightarrow> state \<times> effect list" where
  "handleDrop env file s =
     (case file of
        Some f \<Rightarrow>
          if type f = ''application/pdf''
          then analyzeStatement_begin env f (s\<lparr>selectedFile := Some f\<rparr>)
          else (s\<lparr>analysisState := ''upload''\<rparr>, [Alert ''Please drop a valid PDF file''])
      | None \<Rightarrow> (s\<lparr>analysisState := ''upload''\<rparr>, [Alert ''Please drop a valid PDF file'']))"

subsection \<open>Rendering\<close>

text \<open>
  Once mounted, the component renders what \<open>renderCurrentView\<close> returns; the screen is
  given by the name of the component the switch picks.
\<close>

datatype screen =
    HomeView
  | PhonePeAnalysisView
  | KotakAnalysisView
  | MoreUpiAppsView
  | BanksView
  | SettingsView
  | AccountSettingsView
  | ReferAndEarnView
  | UPIAppsView

definition renderCurrentView :: "string \<Rightarrow> screen" where
  "renderCurrentView view =
     (if view = ''home'' then HomeView
      else if view = ''phonepe-analysis'' \<or> view = ''kotak-analysis'' then
        (if view = ''phonepe-analysis'' then PhonePeAnalysisView else KotakAnalysisView)
      else if view = ''more-upi-apps'' then MoreUpiAppsView
      else if view = ''more-banks'' then BanksView
      else if view = ''settings'' then SettingsView
      else if view = ''account-settings'' then AccountSettingsView
      else if view = ''refer-and-and-earn'' then ReferAndEarnView
      else if view = ''banks'' then BanksView
      else if view = ''upi-apps'' then UPIAppsView
      else HomeView)"

text \<open>The \<open>case\<close> labels of the switch in \<open>renderCurrentView\<close>.\<close>

definition case_labels :: "string list" where
  "case_labels =
     [''home'', ''phonepe-analysis'', ''kotak-analysis'', ''more-upi-apps'', ''more-banks'',
      ''settings'', ''account-settings'', ''refer-and-and-earn'', ''banks'', ''upi-apps'']"

text \<open>
  \<open>renderContent\<close> of \<open>PhonePeAnalysisView\<close> and of \<open>KotakAnalysisView\<close>: the drop zone
  and the file input, which carry \<open>handleDrop\<close> and \<open>handleFileSelect\<close>, exist only in
  the \<open>upload\<close> case.
\<close>

datatype panel = UploadZone | Spinner | NotAvailable | Results json | Blank

definition renderContent :: "string \<Rightarrow> json \<Rightarrow> panel" where
  "renderContent analysisState' analysisResults' =
     (if analysisState' = ''upload'' then UploadZone
      else if analysisState' = ''analyzing'' then Spinner
      else if analysisState' = ''results'' then
        (if \<not> ToBoolean analysisResults' then NotAvailable else Results analysisResults')
      else Blank)"

definition upload_mounted :: "state \<Rightarrow> bool" where
  "upload_mounted s =
     ((renderCurrentView (currentView s) = PhonePeAnalysisView \<or>
       renderCurrentView (currentView s) = KotakAnalysisView) \<and>
      renderContent (analysisState s) (analysisResults s) = UploadZone)"

subsection \<open>The component as a transition system\<close>

text \<open>
  An event is a file chosen in the input, a file dropped, a call of the view setter,
  the dismissal of the error banner (second implementation only) or the arrival of the
  backend's answer for a suspended \<open>analyzeStatement\<close>. \<open>awaiting\<close> counts the
  suspended calls. A file event is possible only while its handler is mounted; the view
  setter is called from many buttons and is taken as possible at any time.
\<close>

datatype event =
    FileSelect "File option"
  | Drop "File option"
  | ViewChange string
  | DismissError
  | Settled fetch_result

record 'c system =
  component :: 'c
  awaiting :: nat

definition launched :: "effect list \<Rightarrow> nat" where
  "launched effs = length (filter is_Fetch effs)"

fun step ::
  "environment \<Rightarrow> event \<Rightarrow> state system \<Rightarrow> (state system \<times> effect list) option" where
  "step env (FileSelect f) sys =
     (if upload_mounted (component sys) then
        (case handleFileSelect env f (component sys) of
           (s, effs) \<Rightarrow> Some (\<lparr>component = s, awaiting = awaiting sys + launched effs\<rparr>, effs))
      else None)"
| "step env (Drop f) sys =
     (if upload_mounted (component sys) then
        (case handleDrop env f (component sys) of
           (s, effs) \<Rightarrow> Some (\<lparr>component = s, awaiting = awaiting sys + launched effs\<rparr>, effs))
      else None)"
| "step env (ViewChange v) sys =
     Some (sys\<lparr>component := (component sys)\<lparr>currentView := v\<rparr>\<rparr>, [])"
| "step env DismissError sys = None"
| "step env (Settled r) sys =
     (if 0 < awaiting sys then
        (case analyzeStatement_resume env r (component sys) of
           (s, effs) \<Rightarrow> Some (\<lparr>component = s, awaiting = awaiting sys - 1\<rparr>, effs))
      else None)"

text \<open>
  \<open>run\<close> is the system after a sequence of events, \<open>history\<close> the values that the
  analysis state took on the way, the starting one first. Both are \<open>None\<close> when an event
  of the sequence is not possible where it stands.
\<close>

fun run :: "environment \<Rightarrow> event list \<Rightarrow> state system \<Rightarrow> state system option" where
  "run env [] sys = Some sys"
| "run env (e # es) sys =
     (case step env e sys of None \<Rightarrow> None | Some (sys', effs) \<Rightarrow> run env es sys')"


definition start :: "state system" where
  "start = \<lparr>component = initial, awaiting = 0\<rparr>"



section \<open>Second implementation of StatementAnalysis\<close>

text \<open>
  The component without parameters that follows in the same file; its views are
  \<open>home\<close>, \<open>kotak\<close> and \<open>phonepe\<close>, and its \<open>KotakAnalysisView\<close> and \<open>ResultsView\<close> are
  the ones that follow \<open>UPIAppGrid\<close> in \<open>frontend/app/components/UPIAppGrid.tsx\<close>.
  It has the cells of the first and two more: the error message, and the ref to a file
  input (\<open>None\<close> while \<open>fileInputRef.current\<close> is \<open>null\<close>, otherwise the value of the
  input). No element is ever given this ref, so it stays \<open>None\<close>.
\<close>

record state2 = state +
  errorMessage :: "string option"
  fileInputRef :: "string option"

definition initial2 :: state2 where
  "initial2 = \<lparr>currentView = ''home'', selectedFile = None,
                analysisState = ''upload'', analysisResults = JNull,
                errorMessage = None, fileInputRef = None\<rparr>"

definition resetState :: "state2 \<Rightarrow> state2" where
  "resetState s =
     s\<lparr>selectedFile := None, analysisState := ''upload'', analysisResults := JNull,
       errorMessage := None,
       fileInputRef := (case fileInputRef s of None \<Rightarrow> None | Some v \<Rightarrow> Some [])\<rparr>"

definition handleViewChange :: "string \<Rightarrow> state2 \<Rightarrow> state2" where
  "handleViewChange view s = (resetState s)\<lparr>currentView := view\<rparr>"

definition apiEndpoint :: "environment \<Rightarrow> string" where
  "apiEndpoint env =
     or_string (NEXT_PUBLIC_API_URL env) ''https://demo-bl6p.onrender.com''"

text \<open>The guard \<open>if (!file) return\<close> is the \<open>None\<close> case: nothing is written or sent.\<close>

definition analyzeStatement2_begin ::
  "environment \<Rightarrow> File option \<Rightarrow> string \<Rightarrow> state2 \<Rightarrow> state2 \<times> effect list" where
  "analyzeStatement2_begin env file bank s =
     (case file of
        None \<Rightarrow> (s, [])
      | Some f \<Rightarrow>
          (let s1 = s\<lparr>analysisState := ''analyzing'', errorMessage := None\<rparr>;
               formData = [(''file'', Blob f), (''bank'', Text bank)]
           in (s1, [Fetch \<lparr>url = apiEndpoint env @ ''/analyze'',
                            method = ''POST'', body = formData\<rparr>])))"

definition analyze_try2 :: "environment \<Rightarrow> fetch_result \<Rightarrow> exn + json" where
  "analyze_try2 env r =
     (case r of
        Inl e \<Rightarrow> Inl e
      | Inr response \<Rightarrow>
          (case json response of
             Inl e \<Rightarrow> Inl e
           | Inr data \<Rightarrow>
               if \<not> ok response then
                 (case detail env ''data'' data of
                    Inl e \<Rightarrow> Inl e
                  | Inr d \<Rightarrow>
                      (case message_text env
                              (or_literal d (''HTTP error! status: '' @ digits (status response))) of
                         Inl e \<Rightarrow> Inl e
                       | Inr m \<Rightarrow> Inl (Error m)))
               else Inr data))"

definition analyzeStatement2_resume ::
  "environment \<Rightarrow> fetch_result \<Rightarrow> state2 \<Rightarrow> state2 \<times> effect list" where
  "analyzeStatement2_resume env r s =
     (case analyze_try2 env r of
        Inr data \<Rightarrow> (s\<lparr>analysisResults := data, analysisState := ''results''\<rparr>, [])
      | Inl error \<Rightarrow>
          (let message =
                 or_string (case error of Error m \<Rightarrow> Some m | NonError \<Rightarrow> None)
                   ''An unknown error occurred during analysis.''
           in (s\<lparr>errorMessage := Some message, analysisState := ''upload''\<rparr>, [])))"

definition analyzeStatement2 ::
  "environment \<Rightarrow> File option \<Rightarrow> string \<Rightarrow> fetch_result \<Rightarrow> state2 \<Rightarrow> state2 \<times> effect list" where
  "analyzeStatement2 env file bank r s =
     (case file of
        None \<Rightarrow> (s, [])
      | Some f \<Rightarrow>
          (let (s1, e1) = analyzeStatement2_begin env file bank s;
               (s2, e2) = analyzeStatement2_resume env r s1
           in (s2, e1 @ e2)))"

definition handleFileSelect2 ::
  "environment \<Rightarrow> File option \<Rightarrow> state2 \<Rightarrow> state2 \<times> effect list" where
  "handleFileSelect2 env file s =
     (case file of
        Some f \<Rightarrow>
          if currentView s = ''kotak'' \<or> currentView s = ''phonepe''
          then analyzeStatement2_begin env (Some f) (currentView s)
                 (s\<lparr>selectedFile := Some f\<rparr>)
          else (s, [])
      | None \<Rightarrow> (s, []))"

definition handleDrop2 ::
  "environment \<Rightarrow> File option \<Rightarrow> state2 \<Rightarrow> state2 \<times> effect list" where
  "handleDrop2 env file s =
     (case file of
        Some f \<Rightarrow>
          if currentView s = ''kotak'' \<or> currentView s = ''phonepe''
          then analyzeStatement2_begin env (Some f) (currentView s)
                 (s\<lparr>selectedFile := Some f\<rparr>)
          else (s, [])
      | None \<Rightarrow> (s, []))"

subsection \<open>Rendering\<close>

datatype screen2 = ServiceCards | KotakAnalysis | PhonePePlaceholder

definition renderContent2 :: "string \<Rightarrow> screen2" where
  "renderContent2 view =
     (if view = ''home'' then ServiceCards
      else if view = ''kotak'' then KotakAnalysis
      else if view = ''phonepe'' then PhonePePlaceholder
      else ServiceCards)"

text \<open>
  \<open>KotakAnalysisView\<close> of the second implementation switches on the analysis state as
  \<open>renderContent\<close> does; in the \<open>upload\<close> case it also shows the error banner, with its
  Dismiss button, when \<open>errorMessage\<close> is a non-empty string.
\<close>

definition upload_mounted2 :: "state2 \<Rightarrow> bool" where
  "upload_mounted2 s =
     (renderContent2 (currentView s) = KotakAnalysis \<and>
      renderContent (analysisState s) (analysisResults s) = UploadZone)"

definition banner_mounted :: "state2 \<Rightarrow> bool" where
  "banner_mounted s =
     (upload_mounted2 s \<and> errorMessage s \<noteq> None \<and> errorMessage s \<noteq> Some [])"

subsection \<open>The component as a transition system\<close>

fun step2 ::
  "environment \<Rightarrow> event \<Rightarrow> state2 system \<Rightarrow> (state2 system \<times> effect list) option" where
  "step2 env (FileSelect f) sys =
     (if upload_mounted2 (component sys) then
        (case handleFileSelect2 env f (component sys) of
           (s, effs) \<Rightarrow> Some (\<lparr>component = s, awaiting = awaiting sys + launched effs\<rparr>, effs))
      else None)"
| "step2 env (Drop f) sys =
     (if upload_mounted2 (component sys) then
        (case handleDrop2 env f (component sys) of
           (s, effs) \<Rightarrow> Some (\<lparr>component = s, awaiting = awaiting sys + launched effs\<rparr>, effs))
      else None)"
| "step2 env (ViewChange v) sys =
     Some (sys\<lparr>component := handleViewChange v (component sys)\<rparr>, [])"
| "step2 env DismissError sys =
     (if banner_mounted (component sys)
      then Some (sys\<lparr>component := (component sys)\<lparr>errorMessage := None\<rparr>\<rparr>, [])
      else None)"
| "step2 env (Settled r) sys =
     (if 0 < awaiting sys then
        (case analyzeStatement2_resume env r (component sys) of
           (s, effs) \<Rightarrow> Some (\<lparr>component = s, awaiting = awaiting sys - 1\<rparr>, effs))
      else None)"

fun run2 :: "environment \<Rightarrow> event list \<Rightarrow> state2 system \<Rightarrow> state2 system option" where
  "run2 env [] sys = Some sys"
| "run2 env (e # es) sys =
     (case step2 env e sys of None \<Rightarrow> None | Some (sys', effs) \<Rightarrow> run2 env es sys')"


definition start2 :: "state2 system" where
  "start2 = \<lparr>component = initial2, awaiting = 0\<rparr>"

section \<open>The results screens\<close>

text \<open>
  The analysis result as the two \<open>ResultsView\<close> components are typed to receive it.
  Amounts and counts are JavaScript numbers; only \<open>Math.abs\<close> and \<open>>= 0\<close> are applied
  to them, which are exact, so they are reals here. What a screen shows is given as
  the numbers handed to \<open>toLocaleString\<close> or interpolated into the text; the locale
  formatting itself is outside the model.
\<close>

record Summary =
  totalReceived :: real
  totalSpent :: real
  balance :: real
  creditCount :: real
  debitCount :: real
  totalTransactions :: real
  highestCredit :: "real option"
  highestDebit :: "real option"

record Transaction =
  date :: string
  description :: string
  amount :: real
  category :: "string option"

record AnalysisResult =
  summary :: Summary
  transactions :: "Transaction list"
  pageCount :: "real option"

text \<open>
  \<open>ResultsView\<close> of the first implementation: the "Transaction Summary" card and the
  "Recent Transactions" list (the last five of the list, newest first).
\<close>

record SummaryCard =
  balanceShown :: real
  balanceClass :: string
  crShown :: real
  crCount :: real
  drShown :: real
  drCount :: real
  totalShown :: real

record ResultsScreen =
  summaryCard :: SummaryCard
  recentTransactions :: "Transaction list"

definition ResultsView :: "AnalysisResult \<Rightarrow> ResultsScreen" where
  "ResultsView analysisResults' =
     (let s = summary analysisResults' in
      \<lparr>summaryCard =
         \<lparr>balanceShown = balance s,
          balanceClass = (if balance s \<ge> 0 then ''text-green-500'' else ''text-red-500''),
          crShown = totalReceived s,
          crCount = creditCount s,
          drShown = \<bar>totalSpent s\<bar>,
          drCount = debitCount s,
          totalShown = totalTransactions s\<rparr>,
       recentTransactions = take 5 (rev (transactions analysisResults'))\<rparr>)"

text \<open>
  \<open>ResultsView\<close> of the second implementation, its "Transaction Summary" card: two
  \<open>SummaryRow\<close>s, two \<open>HighestTransaction\<close> cells (\<open>None\<close> is the text \<open>N/A\<close>) and the net
  balance.
\<close>

record Row =
  rowTitle :: string
  rowCount :: real
  rowSign :: string
  rowShown :: real

definition SummaryRow :: "string \<Rightarrow> real \<Rightarrow> real \<Rightarrow> bool \<Rightarrow> Row" where
  "SummaryRow title count' amount' isCredit =
     \<lparr>rowTitle = title, rowCount = count',
      rowSign = (if isCredit then ''+'' else ''-''), rowShown = \<bar>amount'\<bar>\<rparr>"

definition HighestTransaction :: "real option \<Rightarrow> real option" where
  "HighestTransaction amount' =
     (case amount' of None \<Rightarrow> None | Some a \<Rightarrow> if a \<noteq> 0 then Some \<bar>a\<bar> else None)"

record SummaryCard2 =
  moneyIn :: Row
  moneyOut :: Row
  highestCreditShown :: "real option"
  highestDebitShown :: "real option"
  netBalanceShown :: real
  netBalanceClass :: string

definition ResultsView2 :: "AnalysisResult \<Rightarrow> SummaryCard2" where
  "ResultsView2 analysisResults' =
     (let s = summary analysisResults' in
      \<lparr>moneyIn = SummaryRow ''Total Money In'' (creditCount s) (totalReceived s) True,
       moneyOut = SummaryRow ''Total Money Out'' (debitCount s) (totalSpent s) False,
       highestCreditShown = HighestTransaction (highestCredit s),
       highestDebitShown = HighestTransaction (highestDebit s),
       netBalanceShown = balance s,
       netBalanceClass = (if balance s \<ge> 0 then ''text-green-400'' else ''text-red-400'')\<rparr>)"

section \<open>Vocabulary of the statements\<close>

text \<open>
  A file event is accepted when the handler passes its file on to \<open>analyzeStatement\<close>:
  in the first implementation a file of MIME type \<open>application/pdf\<close>, in the second
  any file while the view is \<open>kotak\<close> or \<open>phonepe\<close>.
\<close>

definition accepted :: "File option \<Rightarrow> bool" where
  "accepted fo = (case fo of None \<Rightarrow> False | Some f \<Rightarrow> type f = ''application/pdf'')"

definition accepted2 :: "state2 \<Rightarrow> File option \<Rightarrow> bool" where
  "accepted2 s fo = (fo \<noteq> None \<and> (currentView s = ''kotak'' \<or> currentView s = ''phonepe''))"




section \<open>Sample inputs\<close>

text \<open>
  An environment with no URL configured. Its engine part is a table with what an
  engine gives on \<open>null\<close>, the booleans, the empty array and the empty object; the
  samples meet no other value, and what the table holds elsewhere plays no part.
\<close>

fun sample_ToString :: "json \<Rightarrow> exn + string" where
  "sample_ToString JNull = Inr ''null''"
| "sample_ToString (JBool b) = Inr (if b then ''true'' else ''false'')"
| "sample_ToString (JArr []) = Inr []"
| "sample_ToString (JObj []) = Inr ''[object Object]''"
| "sample_ToString v = Inl (Error ''Cannot convert object to primitive value'')"

definition sample_env :: environment where
  "sample_env =
     \<lparr>NEXT_PUBLIC_API_URL = None, ToString = sample_ToString,
      TypeError_message = (\<lambda>x. ''Cannot read properties of null (reading 'detail')'')\<rparr>"

text \<open>A PDF statement, a file that is not a PDF, a successful answer and an error answer.\<close>

definition statement_pdf :: File where
  "statement_pdf = \<lparr>name = ''statement.pdf'', type = ''application/pdf''\<rparr>"

definition photo_png :: File where
  "photo_png = \<lparr>name = ''photo.png'', type = ''image/png''\<rparr>"

definition ok_response :: Response where
  "ok_response = \<lparr>ok = True, status = 200, json = Inr (JObj [(''pageCount'', JNum 2)])\<rparr>"

definition error_response :: Response where
  "error_response = \<lparr>ok = False, status = 400, json = Inr (JObj [(''detail'', JStr ''Not a statement'')])\<rparr>"

text \<open>
  Three more error answers: a 502 whose body is an HTML page, so that
  \<open>response.json()\<close> rejects with the parser's error; a 500 whose body is the JSON
  value \<open>null\<close>; a 404 whose body is an object without \<open>detail\<close>.
\<close>

definition gateway_response :: Response where
  "gateway_response =
     \<lparr>ok = False, status = 502,
      json = Inl (Error ''Unexpected token < in JSON at position 0'')\<rparr>"

definition null_response :: Response where
  "null_response = \<lparr>ok = False, status = 500, json = Inr JNull\<rparr>"

definition plain_response :: Response where
  "plain_response = \<lparr>ok = False, status = 404, json = Inr (JObj [(''error'', JStr ''no'')])\<rparr>"

text \<open>An analysis result whose total spent is negative.\<close>

definition sample_result :: AnalysisResult where
  "sample_result =
     \<lparr>summary = \<lparr>totalReceived = 1200, totalSpent = - 500, balance = 700, creditCount = 1,
                  debitCount = 2, totalTransactions = 3, highestCredit = Some 1200,
                  highestDebit = Some (- 300)\<rparr>,
      transactions =
        [\<lparr>date = ''2024-01-05'', description = ''Salary'', amount = 1200, category = None\<rparr>,
         \<lparr>date = ''2024-01-09'', description = ''Rent'', amount = - 300, category = Some ''bills''\<rparr>,
         \<lparr>date = ''2024-01-11'', description = ''Food'', amount = - 200, category = Some ''food''\<rparr>],
      pageCount = Some 1\<rparr>"

section \<open>Facts about the handlers and the steps\<close>

subsection \<open>The two halves of analyzeStatement and the handlers\<close>



lemma resume_state:
  "analysisState (fst (analyzeStatement_resume env r s)) =
     (case analyze_try env r of Inr data \<Rightarrow> ''results'' | Inl e \<Rightarrow> ''upload'')"
  by (simp add: analyzeStatement_resume_def split: sum.splits)

lemma resume2_state:
  "analysisState (fst (analyzeStatement2_resume env r s)) =
     (case analyze_try2 env r of Inr data \<Rightarrow> ''results'' | Inl e \<Rightarrow> ''upload'')"
  by (simp add: analyzeStatement2_resume_def Let_def split: sum.splits)

lemma resume_effects: "launched (snd (analyzeStatement_resume env r s)) = 0"
  by (simp add: analyzeStatement_resume_def launched_def split: sum.splits)

lemma resume2_effects: "snd (analyzeStatement2_resume env r s) = []"
  by (simp add: analyzeStatement2_resume_def Let_def split: sum.splits)

lemma begin_state: "fst (analyzeStatement_begin env f s) = s\<lparr>analysisState := ''analyzing''\<rparr>"
  by (simp add: analyzeStatement_begin_def Let_def)

lemma begin_effects:
  "snd (analyzeStatement_begin env f s) =
     [Fetch \<lparr>url = backendUrl env @ ''/analyze'', method = ''POST'',
             body = [(''file'', Blob f), (''platform'', Text (platform (currentView s)))]\<rparr>]"
  by (simp add: analyzeStatement_begin_def Let_def)

lemma begin2_state:
  "fst (analyzeStatement2_begin env (Some f) bank s) =
     s\<lparr>analysisState := ''analyzing'', errorMessage := None\<rparr>"
  by (simp add: analyzeStatement2_begin_def Let_def)

lemma begin2_no_file: "analyzeStatement2_begin env None bank s = (s, [])"
  by (simp add: analyzeStatement2_begin_def)

lemma begin2_effects:
  "snd (analyzeStatement2_begin env (Some f) bank s) =
     [Fetch \<lparr>url = apiEndpoint env @ ''/analyze'', method = ''POST'',
             body = [(''file'', Blob f), (''bank'', Text bank)]\<rparr>]"
  by (simp add: analyzeStatement2_begin_def Let_def)

lemma handleFileSelect_cases:
  "handleFileSelect env fo s =
     (if accepted fo then analyzeStatement_begin env (the fo) (s\<lparr>selectedFile := fo\<rparr>)
      else (s\<lparr>analysisState := ''upload''\<rparr>, [Alert ''Please select a valid PDF file'']))"
  by (simp add: handleFileSelect_def accepted_def split: option.splits)

lemma handleDrop_cases:
  "handleDrop env fo s =
     (if accepted fo then analyzeStatement_begin env (the fo) (s\<lparr>selectedFile := fo\<rparr>)
      else (s\<lparr>analysisState := ''upload''\<rparr>, [Alert ''Please drop a valid PDF file'']))"
  by (simp add: handleDrop_def accepted_def split: option.splits)

subsection \<open>Steps of the first implementation\<close>

lemma renderContent_upload: "renderContent a r = UploadZone \<longleftrightarrow> a = ''upload''"
  by (simp add: renderContent_def)


lemma upload_mounted2_state: "upload_mounted2 s \<Longrightarrow> analysisState s = ''upload''"
  by (simp add: upload_mounted2_def renderContent_upload)

lemma upload_mounted2_view: "upload_mounted2 s \<Longrightarrow> currentView s = ''kotak''"
  by (simp add: upload_mounted2_def renderContent2_def split: if_splits)

lemma step_FileSelect:
  "step env (FileSelect fo) sys = Some (sys', effs) \<longleftrightarrow>
     upload_mounted (component sys) \<and>
     sys' = \<lparr>component = fst (handleFileSelect env fo (component sys)),
             awaiting = awaiting sys + launched (snd (handleFileSelect env fo (component sys)))\<rparr> \<and>
     effs = snd (handleFileSelect env fo (component sys))"
  by (auto split: prod.splits)

lemma step_Drop:
  "step env (Drop fo) sys = Some (sys', effs) \<longleftrightarrow>
     upload_mounted (component sys) \<and>
     sys' = \<lparr>component = fst (handleDrop env fo (component sys)),
             awaiting = awaiting sys + launched (snd (handleDrop env fo (component sys)))\<rparr> \<and>
     effs = snd (handleDrop env fo (component sys))"
  by (auto split: prod.splits)

lemma step_Settled:
  "step env (Settled r) sys = Some (sys', effs) \<longleftrightarrow>
     0 < awaiting sys \<and>
     sys' = \<lparr>component = fst (analyzeStatement_resume env r (component sys)),
             awaiting = awaiting sys - 1\<rparr> \<and>
     effs = snd (analyzeStatement_resume env r (component sys))"
  by (auto split: prod.splits)

lemma step_ViewChange:
  "step env (ViewChange v) sys = Some (sys', effs) \<longleftrightarrow>
     sys' = sys\<lparr>component := (component sys)\<lparr>currentView := v\<rparr>\<rparr> \<and> effs = []"
  by auto

lemma step_DismissError: "step env DismissError sys = Some (sys', effs) \<longleftrightarrow> False"
  by simp

declare step.simps [simp del]

lemma launched_simps [simp]:
  "launched [] = 0"
  "launched (Alert m # effs) = launched effs"
  "launched (Fetch q # effs) = Suc (launched effs)"
  by (simp_all add: launched_def)

lemma launched_begin: "launched (snd (analyzeStatement_begin env f s)) = 1"
  by (simp add: begin_effects)





subsection \<open>Steps of the second implementation\<close>

lemma handleFileSelect2_cases:
  "handleFileSelect2 env fo s =
     (if accepted2 s fo
      then analyzeStatement2_begin env fo (currentView s) (s\<lparr>selectedFile := fo\<rparr>)
      else (s, []))"
  by (auto simp: handleFileSelect2_def accepted2_def split: option.splits)

lemma handleDrop2_cases:
  "handleDrop2 env fo s =
     (if accepted2 s fo
      then analyzeStatement2_begin env fo (currentView s) (s\<lparr>selectedFile := fo\<rparr>)
      else (s, []))"
  by (auto simp: handleDrop2_def accepted2_def split: option.splits)

lemma step2_FileSelect:
  "step2 env (FileSelect fo) sys = Some (sys', effs) \<longleftrightarrow>
     upload_mounted2 (component sys) \<and>
     sys' = \<lparr>component = fst (handleFileSelect2 env fo (component sys)),
             awaiting = awaiting sys + launched (snd (handleFileSelect2 env fo (component sys)))\<rparr> \<and>
     effs = snd (handleFileSelect2 env fo (component sys))"
  by (auto split: prod.splits)

lemma step2_Drop:
  "step2 env (Drop fo) sys = Some (sys', effs) \<longleftrightarrow>
     upload_mounted2 (component sys) \<and>
     sys' = \<lparr>component = fst (handleDrop2 env fo (component sys)),
             awaiting = awaiting sys + launched (snd (handleDrop2 env fo (component sys)))\<rparr> \<and>
     effs = snd (handleDrop2 env fo (component sys))"
  by (auto split: prod.splits)

lemma step2_Settled:
  "step2 env (Settled r) sys = Some (sys', effs) \<longleftrightarrow>
     0 < awaiting sys \<and>
     sys' = \<lparr>component = fst (analyzeStatement2_resume env r (component sys)),
             awaiting = awaiting sys - 1\<rparr> \<and>
     effs = snd (analyzeStatement2_resume env r (component sys))"
  by (auto split: prod.splits)

lemma step2_ViewChange:
  "step2 env (ViewChange v) sys = Some (sys', effs) \<longleftrightarrow>
     sys' = sys\<lparr>component := handleViewChange v (component sys)\<rparr> \<and> effs = []"
  by auto

lemma step2_DismissError:
  "step2 env DismissError sys = Some (sys', effs) \<longleftrightarrow>
     banner_mounted (component sys) \<and>
     sys' = sys\<lparr>component := (component sys)\<lparr>errorMessage := None\<rparr>\<rparr> \<and> effs = []"
  by auto

declare step2.simps [simp del]

subsection \<open>The analysis state along a run\<close>

lemma resume_in: "analysisState (fst (analyzeStatement_resume env r s)) \<in> {''results'', ''upload''}"
  by (simp add: resume_state split: sum.splits)

lemma resume2_in: "analysisState (fst (analyzeStatement2_resume env r s)) \<in> {''results'', ''upload''}"
  by (simp add: resume2_state split: sum.splits)

lemma handleViewChange_state: "analysisState (handleViewChange v s) = ''upload''"
  by (simp add: handleViewChange_def resetState_def)

lemma step_keeps_AnalysisState:
  assumes "analysisState (component sys) \<in> AnalysisState"
    and "step env e sys = Some (sys', effs)"
  shows "analysisState (component sys') \<in> AnalysisState"
proof (cases e)
  case (FileSelect fo)
  with assms(2) show ?thesis
    by (auto simp: step_FileSelect handleFileSelect_cases begin_state AnalysisState_def)
next
  case (Drop fo)
  with assms(2) show ?thesis
    by (auto simp: step_Drop handleDrop_cases begin_state AnalysisState_def)
next
  case (ViewChange v)
  with assms show ?thesis by (auto simp: step_ViewChange)
next
  case DismissError
  with assms show ?thesis by (simp add: step_DismissError)
next
  case (Settled r)
  with assms(2) resume_in [of env r "component sys"] show ?thesis
    by (auto simp: step_Settled AnalysisState_def)
qed

lemma step2_keeps_AnalysisState:
  assumes "analysisState (component sys) \<in> AnalysisState"
    and "step2 env e sys = Some (sys', effs)"
  shows "analysisState (component sys') \<in> AnalysisState"
proof (cases e)
  case (FileSelect fo)
  with assms show ?thesis
    by (cases fo) (auto simp: step2_FileSelect handleFileSelect2_cases begin2_state AnalysisState_def
        accepted2_def)
next
  case (Drop fo)
  with assms show ?thesis
    by (cases fo) (auto simp: step2_Drop handleDrop2_cases begin2_state AnalysisState_def
        accepted2_def)
next
  case (ViewChange v)
  with assms(2) show ?thesis
    by (auto simp: step2_ViewChange handleViewChange_state AnalysisState_def)
next
  case DismissError
  with assms show ?thesis by (auto simp: step2_DismissError)
next
  case (Settled r)
  with assms(2) resume2_in [of env r "component sys"] show ?thesis
    by (auto simp: step2_Settled AnalysisState_def)
qed

lemma run_keeps_AnalysisState:
  "analysisState (component sys) \<in> AnalysisState \<Longrightarrow> run env es sys = Some sys' \<Longrightarrow>
   analysisState (component sys') \<in> AnalysisState"
proof (induction es arbitrary: sys)
  case Nil
  then show ?case by simp
next
  case (Cons e es)
  from Cons.prems(2) obtain sys1 effs where
    st: "step env e sys = Some (sys1, effs)" and r: "run env es sys1 = Some sys'"
    by (auto split: option.splits prod.splits)
  from Cons.prems(1) st have "analysisState (component sys1) \<in> AnalysisState"
    by (rule step_keeps_AnalysisState)
  then show ?case using r by (rule Cons.IH)
qed

lemma run2_keeps_AnalysisState:
  "analysisState (component sys) \<in> AnalysisState \<Longrightarrow> run2 env es sys = Some sys' \<Longrightarrow>
   analysisState (component sys') \<in> AnalysisState"
proof (induction es arbitrary: sys)
  case Nil
  then show ?case by simp
next
  case (Cons e es)
  from Cons.prems(2) obtain sys1 effs where
    st: "step2 env e sys = Some (sys1, effs)" and r: "run2 env es sys1 = Some sys'"
    by (auto split: option.splits prod.splits)
  from Cons.prems(1) st have "analysisState (component sys1) \<in> AnalysisState"
    by (rule step2_keeps_AnalysisState)
  then show ?case using r by (rule Cons.IH)
qed





subsection \<open>Requests\<close>












lemma launched_filter: "launched effs = length (filter is_Fetch effs)"
  by (simp add: launched_def)

lemma step_launched:
  assumes "step env e sys = Some (sys', effs)"
  shows "launched effs =
     (case e of FileSelect f \<Rightarrow> if accepted f then 1 else 0
              | Drop f \<Rightarrow> if accepted f then 1 else 0
              | ViewChange v \<Rightarrow> 0 | DismissError \<Rightarrow> 0 | Settled r \<Rightarrow> 0)"
proof (cases e)
  case (FileSelect fo)
  with assms show ?thesis
    by (auto simp: step_FileSelect handleFileSelect_cases launched_begin)
next
  case (Drop fo)
  with assms show ?thesis
    by (auto simp: step_Drop handleDrop_cases launched_begin)
next
  case (ViewChange v)
  with assms show ?thesis by (simp add: step_ViewChange)
next
  case DismissError
  with assms show ?thesis by (simp add: step_DismissError)
next
  case (Settled r)
  with assms show ?thesis by (simp add: step_Settled resume_effects)
qed

lemma launched_begin2: "launched (snd (analyzeStatement2_begin env (Some f) bank s)) = 1"
  by (simp add: begin2_effects)

lemma step2_launched:
  assumes "step2 env e sys = Some (sys', effs)"
  shows "launched effs =
     (case e of FileSelect f \<Rightarrow> if accepted2 (component sys) f then 1 else 0
              | Drop f \<Rightarrow> if accepted2 (component sys) f then 1 else 0
              | ViewChange v \<Rightarrow> 0 | DismissError \<Rightarrow> 0 | Settled r \<Rightarrow> 0)"
proof (cases e)
  case (FileSelect fo)
  with assms show ?thesis
    by (cases fo) (auto simp: step2_FileSelect handleFileSelect2_cases launched_begin2 accepted2_def)
next
  case (Drop fo)
  with assms show ?thesis
    by (cases fo) (auto simp: step2_Drop handleDrop2_cases launched_begin2 accepted2_def)
next
  case (ViewChange v)
  with assms show ?thesis by (simp add: step2_ViewChange)
next
  case DismissError
  with assms show ?thesis by (auto simp: step2_DismissError)
next
  case (Settled r)
  with assms show ?thesis by (simp add: step2_Settled resume2_effects)
qed

lemma analyzeStatement_fetches:
  "filter is_Fetch (snd (analyzeStatement env f r s)) =
     [Fetch \<lparr>url = backendUrl env @ ''/analyze'', method = ''POST'',
             body = [(''file'', Blob f), (''platform'', Text (platform (currentView s)))]\<rparr>]"
  by (simp add: analyzeStatement_def analyzeStatement_begin_def analyzeStatement_resume_def
      Let_def split: sum.splits)

lemma analyzeStatement2_fetches:
  "filter is_Fetch (snd (analyzeStatement2 env (Some f) bank r s)) =
     [Fetch \<lparr>url = apiEndpoint env @ ''/analyze'', method = ''POST'',
             body = [(''file'', Blob f), (''bank'', Text bank)]\<rparr>]"
  by (simp add: analyzeStatement2_def analyzeStatement2_begin_def analyzeStatement2_resume_def
      Let_def split: sum.splits)

subsection \<open>Responses\<close>

lemma analyze_try_not_ok:
  "\<not> ok response \<Longrightarrow> \<exists>e. analyze_try env (Inr response) = Inl e"
  by (simp add: analyze_try_def split: sum.splits)

lemma analyze_try2_not_ok:
  "\<not> ok response \<Longrightarrow> \<exists>e. analyze_try2 env (Inr response) = Inl e"
  by (simp add: analyze_try2_def split: sum.splits)

lemma resume_not_ok:
  assumes "\<not> ok response"
  shows "analysisState (fst (analyzeStatement_resume env (Inr response) s)) = ''upload'' \<and>
         analysisResults (fst (analyzeStatement_resume env (Inr response) s)) = analysisResults s"
proof -
  from analyze_try_not_ok [OF assms] obtain e where "analyze_try env (Inr response) = Inl e" ..
  then show ?thesis by (simp add: analyzeStatement_resume_def)
qed

lemma resume2_not_ok:
  assumes "\<not> ok response"
  shows "analysisState (fst (analyzeStatement2_resume env (Inr response) s)) = ''upload'' \<and>
         analysisResults (fst (analyzeStatement2_resume env (Inr response) s)) = analysisResults s"
proof -
  from analyze_try2_not_ok [OF assms] obtain e where "analyze_try2 env (Inr response) = Inl e" ..
  then show ?thesis by (simp add: analyzeStatement2_resume_def Let_def)
qed

lemma resume_ok:
  assumes "ok response" and "json response = Inr data"
  shows "fst (analyzeStatement_resume env (Inr response) s) =
           s\<lparr>analysisResults := data, analysisState := ''results''\<rparr>"
proof -
  from assms have "analyze_try env (Inr response) = Inr data" by (simp add: analyze_try_def)
  then show ?thesis by (simp add: analyzeStatement_resume_def)
qed

lemma resume2_ok:
  assumes "ok response" and "json response = Inr data"
  shows "fst (analyzeStatement2_resume env (Inr response) s) =
           s\<lparr>analysisResults := data, analysisState := ''results''\<rparr>"
proof -
  from assms have "analyze_try2 env (Inr response) = Inr data" by (simp add: analyze_try2_def)
  then show ?thesis by (simp add: analyzeStatement2_resume_def)
qed

lemma analyzeStatement_fst:
  "fst (analyzeStatement env f r s) =
     fst (analyzeStatement_resume env r (s\<lparr>analysisState := ''analyzing''\<rparr>))"
  by (simp add: analyzeStatement_def analyzeStatement_begin_def Let_def split: prod.splits)

lemma analyzeStatement2_fst:
  "fst (analyzeStatement2 env (Some f) bank r s) =
     fst (analyzeStatement2_resume env r (s\<lparr>analysisState := ''analyzing'', errorMessage := None\<rparr>))"
  by (simp add: analyzeStatement2_def analyzeStatement2_begin_def Let_def split: prod.splits)

lemma detail_present:
  assumes "distinct (map fst kvs)" and "(''detail'', v) \<in> set kvs"
  shows "detail env x (JObj kvs) = Inr (Some v)"
proof -
  from assms(1) have "distinct (map fst (rev kvs))" by (simp add: rev_map [symmetric])
  moreover from assms(2) have "(''detail'', v) \<in> set (rev kvs)" by simp
  ultimately have "map_of (rev kvs) ''detail'' = Some v" by (rule map_of_is_SomeI)
  then show ?thesis by simp
qed

lemma detail_absent:
  assumes "''detail'' \<notin> fst ` set kvs"
  shows "detail env x (JObj kvs) = Inr None"
proof -
  from assms have "''detail'' \<notin> fst ` set (rev kvs)" by simp
  then have "map_of (rev kvs) ''detail'' = None" by (simp add: map_of_eq_None_iff)
  then show ?thesis by simp
qed

lemma thrown_when_read:
  assumes "\<not> ok response" and "json response = Inr data" and "detail env x data = Inr d"
  shows "analyze_try env (Inr response) =
           (case message_text env (or_literal d ''Failed to analyze statement'') of
              Inl e \<Rightarrow> Inl e | Inr m \<Rightarrow> Inl (Error m))"
    and "analyze_try2 env (Inr response) =
           (case message_text env
                   (or_literal d (''HTTP error! status: '' @ digits (status response))) of
              Inl e \<Rightarrow> Inl e | Inr m \<Rightarrow> Inl (Error m))"
proof -
  from assms(3) have "detail env ''results'' data = Inr d" by (cases data) auto
  with assms(1,2) show "analyze_try env (Inr response) =
           (case message_text env (or_literal d ''Failed to analyze statement'') of
              Inl e \<Rightarrow> Inl e | Inr m \<Rightarrow> Inl (Error m))"
    by (simp add: analyze_try_def)
  from assms(3) have "detail env ''data'' data = Inr d" by (cases data) auto
  with assms(1,2) show "analyze_try2 env (Inr response) =
           (case message_text env
                   (or_literal d (''HTTP error! status: '' @ digits (status response))) of
              Inl e \<Rightarrow> Inl e | Inr m \<Rightarrow> Inl (Error m))"
    by (simp add: analyze_try2_def)
qed

lemma thrown_string_detail:
  assumes "\<not> ok response" and "json response = Inr (JObj kvs)" and "distinct (map fst kvs)"
    and "(''detail'', JStr m) \<in> set kvs" and "m \<noteq> []"
  shows "analyze_try env (Inr response) = Inl (Error m) \<and>
         analyze_try2 env (Inr response) = Inl (Error m)"
  using assms(5)
    thrown_when_read [OF assms(1,2) detail_present [OF assms(3,4)]]
  by (simp add: or_literal_def message_text_def)

lemma thrown_other_detail:
  assumes "\<not> ok response" and "json response = Inr (JObj kvs)" and "distinct (map fst kvs)"
    and "(''detail'', v) \<in> set kvs"
    and "v = JBool True \<or> (\<exists>n. v = JNum n \<and> n \<noteq> 0) \<or> (\<exists>xs. v = JArr xs) \<or> (\<exists>kvs'. v = JObj kvs')"
  shows "analyze_try env (Inr response) =
           (case ToString env v of Inl e \<Rightarrow> Inl e | Inr m \<Rightarrow> Inl (Error m)) \<and>
         analyze_try2 env (Inr response) =
           (case ToString env v of Inl e \<Rightarrow> Inl e | Inr m \<Rightarrow> Inl (Error m))"
  using assms(5)
    thrown_when_read [OF assms(1,2) detail_present [OF assms(3,4)]]
  by (auto simp: or_literal_def message_text_def)

lemma thrown_generic:
  assumes "\<not> ok response" and "json response = Inr data"
    and "(\<exists>b. data = JBool b) \<or> (\<exists>n. data = JNum n) \<or> (\<exists>s. data = JStr s) \<or>
         (\<exists>xs. data = JArr xs) \<or>
         (\<exists>kvs. data = JObj kvs \<and> ''detail'' \<notin> fst ` set kvs) \<or>
         (\<exists>kvs v. data = JObj kvs \<and> distinct (map fst kvs) \<and> (''detail'', v) \<in> set kvs \<and>
            (v = JNull \<or> v = JBool False \<or> v = JNum 0 \<or> v = JStr []))"
  shows "analyze_try env (Inr response) = Inl (Error ''Failed to analyze statement'') \<and>
         analyze_try2 env (Inr response) =
           Inl (Error (''HTTP error! status: '' @ digits (status response)))"
proof -
  consider
      (plain) "(\<exists>b. data = JBool b) \<or> (\<exists>n. data = JNum n) \<or> (\<exists>s. data = JStr s) \<or>
               (\<exists>xs. data = JArr xs)"
    | (absent) kvs where "data = JObj kvs" and "''detail'' \<notin> fst ` set kvs"
    | (falsy) kvs v where "data = JObj kvs" and "distinct (map fst kvs)"
        and "(''detail'', v) \<in> set kvs"
        and "v = JNull \<or> v = JBool False \<or> v = JNum 0 \<or> v = JStr []"
    using assms(3) by blast
  then have "\<exists>d. detail env ''results'' data = Inr d \<and>
             (d = None \<or> (\<exists>v. d = Some v \<and> \<not> ToBoolean v))"
  proof cases
    case plain
    then show ?thesis by auto
  next
    case absent
    from detail_absent [OF absent(2)] have "detail env ''results'' (JObj kvs) = Inr None" .
    with absent(1) show ?thesis by simp
  next
    case falsy
    from detail_present [OF falsy(2,3)]
    have "detail env ''results'' (JObj kvs) = Inr (Some v)" .
    with falsy(1,4) show ?thesis by auto
  qed
  then obtain d where d: "detail env ''results'' data = Inr d"
      "d = None \<or> (\<exists>v. d = Some v \<and> \<not> ToBoolean v)"
    by blast
  from d(2) have "\<And>lit. or_literal d lit = JStr lit"
    by (auto simp: or_literal_def)
  with thrown_when_read [OF assms(1,2) d(1)] show ?thesis
    by (simp add: message_text_def)
qed

lemma thrown_null:
  "\<not> ok response \<Longrightarrow> json response = Inr JNull \<Longrightarrow>
   analyze_try env (Inr response) = Inl (Error (TypeError_message env ''results'')) \<and>
   analyze_try2 env (Inr response) = Inl (Error (TypeError_message env ''data''))"
  by (simp add: analyze_try_def analyze_try2_def)

lemma thrown_not_json:
  "json response = Inl e \<Longrightarrow>
   analyze_try env (Inr response) = Inl e \<and> analyze_try2 env (Inr response) = Inl e"
  by (simp add: analyze_try_def analyze_try2_def)






section \<open>The claims\<close>

text \<open>
  C6. \<open>renderCurrentView\<close> of the first implementation gives the PhonePe analysis screen
  exactly for the view \<open>phonepe-analysis\<close>, the Kotak analysis screen exactly for
  \<open>kotak-analysis\<close>, and the home screen for \<open>home\<close> and for every view that is not a
  \<open>case\<close> label of the switch.
\<close>

theorem renderCurrentView_dispatch:
  "(renderCurrentView view = PhonePeAnalysisView \<longleftrightarrow> view = ''phonepe-analysis'') \<and>
   (renderCurrentView view = KotakAnalysisView \<longleftrightarrow> view = ''kotak-analysis'') \<and>
   (view = ''home'' \<or> view \<notin> set case_labels \<longrightarrow> renderCurrentView view = HomeView)"
  by (simp add: renderCurrentView_def case_labels_def)

theorem renderCurrentView_dispatch_witness:
  "''history'' \<notin> set case_labels \<and> renderCurrentView ''history'' = HomeView \<and>
   renderCurrentView ''home'' = HomeView \<and>
   renderCurrentView ''kotak-analysis'' = KotakAnalysisView \<and>
   renderCurrentView ''phonepe-analysis'' = PhonePeAnalysisView"
  using renderCurrentView_dispatch [of "''history''"] renderCurrentView_dispatch [of "''home''"]
    renderCurrentView_dispatch [of "''kotak-analysis''"]
    renderCurrentView_dispatch [of "''phonepe-analysis''"]
  by (simp add: case_labels_def)

text \<open>
  C9. When \<open>analyzeStatement\<close> of the first implementation starts while the view is
  neither \<open>phonepe-analysis\<close> nor \<open>kotak-analysis\<close>, the \<open>platform\<close> field of the one
  request it sends is \<open>phonepe\<close>.
\<close>

theorem default_platform:
  "currentView s \<noteq> ''phonepe-analysis'' \<Longrightarrow> currentView s \<noteq> ''kotak-analysis'' \<Longrightarrow>
   snd (analyzeStatement_begin env file s) =
     [Fetch \<lparr>url = backendUrl env @ ''/analyze'', method = ''POST'',
             body = [(''file'', Blob file), (''platform'', Text ''phonepe'')]\<rparr>]"
  by (simp add: begin_effects platform_def)

theorem default_platform_witness:
  "currentView initial = ''home'' \<and>
   snd (analyzeStatement_begin sample_env statement_pdf initial) =
     [Fetch \<lparr>url = ''http://localhost:8000/analyze'', method = ''POST'',
             body = [(''file'', Blob statement_pdf), (''platform'', Text ''phonepe'')]\<rparr>]"
  using default_platform [of initial sample_env statement_pdf]
  by (simp add: initial_def backendUrl_def or_string_def strip_trailing_slash_def
        sample_env_def message_text_def)

text \<open>
  C8. \<open>handleFileSelect\<close> and \<open>handleDrop\<close> of the first implementation hand a file to
  \<open>analyzeStatement\<close> when there is one and its MIME type is \<open>application/pdf\<close>; on
  every other input they send no request and set the analysis state to \<open>upload\<close>.
\<close>

theorem pdf_gate:
  "((\<exists>f. file = Some f \<and> type f = ''application/pdf'') \<longrightarrow>
      handleFileSelect env file s =
        analyzeStatement_begin env (the file) (s\<lparr>selectedFile := file\<rparr>) \<and>
      handleDrop env file s =
        analyzeStatement_begin env (the file) (s\<lparr>selectedFile := file\<rparr>)) \<and>
   (\<not> (\<exists>f. file = Some f \<and> type f = ''application/pdf'') \<longrightarrow>
      launched (snd (handleFileSelect env file s)) = 0 \<and>
      analysisState (fst (handleFileSelect env file s)) = ''upload'' \<and>
      launched (snd (handleDrop env file s)) = 0 \<and>
      analysisState (fst (handleDrop env file s)) = ''upload'')"
  by (cases "file") (simp_all add: handleFileSelect_def handleDrop_def)

theorem pdf_gate_witness:
  "handleFileSelect sample_env (Some statement_pdf) initial =
     analyzeStatement_begin sample_env statement_pdf (initial\<lparr>selectedFile := Some statement_pdf\<rparr>) \<and>
   launched (snd (handleDrop sample_env (Some photo_png) (initial\<lparr>analysisState := ''results''\<rparr>))) = 0 \<and>
   analysisState (fst (handleDrop sample_env (Some photo_png) (initial\<lparr>analysisState := ''results''\<rparr>))) = ''upload'' \<and>
   launched (snd (handleFileSelect sample_env None initial)) = 0"
  using pdf_gate [of "Some statement_pdf" sample_env initial]
    pdf_gate [of "Some photo_png" sample_env "initial\<lparr>analysisState := ''results''\<rparr>"]
    pdf_gate [of None sample_env initial]
  by (simp add: statement_pdf_def photo_png_def)

text \<open>
  C10. In the second implementation \<open>handleViewChange\<close> leaves the selected file, the
  results and the error message \<open>null\<close> and the analysis state \<open>upload\<close> in the view it
  enters, a step that changes the view is always a call of \<open>handleViewChange\<close>, and the
  view the component starts in has the same four values.
\<close>

theorem view_change_resets:
  "(let s' = handleViewChange view s in
      currentView s' = view \<and> selectedFile s' = None \<and> analysisState s' = ''upload'' \<and>
      analysisResults s' = JNull \<and> errorMessage s' = None) \<and>
   (\<forall>sys e sys' effs.
      step2 env e sys = Some (sys', effs) \<and>
      currentView (component sys') \<noteq> currentView (component sys) \<longrightarrow>
      (\<exists>v. e = ViewChange v \<and> component sys' = handleViewChange v (component sys))) \<and>
   selectedFile initial2 = None \<and> analysisState initial2 = ''upload'' \<and>
   analysisResults initial2 = JNull \<and> errorMessage initial2 = None"
proof (intro conjI allI impI)
  show "selectedFile initial2 = None" and "analysisState initial2 = ''upload''"
    and "analysisResults initial2 = JNull" and "errorMessage initial2 = None"
    by (simp_all add: initial2_def)
next
  show "let s' = handleViewChange view s in
      currentView s' = view \<and> selectedFile s' = None \<and> analysisState s' = ''upload'' \<and>
      analysisResults s' = JNull \<and> errorMessage s' = None"
    by (simp add: handleViewChange_def resetState_def)
next
  fix sys e sys' effs
  assume a: "step2 env e sys = Some (sys', effs) \<and>
      currentView (component sys') \<noteq> currentView (component sys)"
  show "\<exists>v. e = ViewChange v \<and> component sys' = handleViewChange v (component sys)"
  proof (cases e)
    case (FileSelect fo)
    with a show ?thesis
      by (cases fo) (auto simp: step2_FileSelect handleFileSelect2_cases begin2_state accepted2_def
          split: if_splits)
  next
    case (Drop fo)
    with a show ?thesis
      by (cases fo) (auto simp: step2_Drop handleDrop2_cases begin2_state accepted2_def
          split: if_splits)
  next
    case (ViewChange v)
    with a show ?thesis by (auto simp: step2_ViewChange)
  next
    case DismissError
    with a show ?thesis by (auto simp: step2_DismissError)
  next
    case (Settled r)
    with a show ?thesis
      by (auto simp: step2_Settled analyzeStatement2_resume_def Let_def split: sum.splits)
  qed
qed

theorem view_change_resets_witness:
  "step2 sample_env (ViewChange ''kotak'') start2 =
     Some (\<lparr>component = handleViewChange ''kotak'' initial2, awaiting = 0\<rparr>, []) \<and>
   currentView (handleViewChange ''kotak'' initial2) \<noteq> currentView initial2 \<and>
   handleViewChange ''home''
     (initial2\<lparr>currentView := ''kotak'', selectedFile := Some statement_pdf,
               analysisState := ''results'', analysisResults := JObj [],
               errorMessage := Some ''Not a statement''\<rparr>) = initial2"
  using view_change_resets [of "''home''"
      "initial2\<lparr>currentView := ''kotak'', selectedFile := Some statement_pdf,
                analysisState := ''results'', analysisResults := JObj [],
                errorMessage := Some ''Not a statement''\<rparr>" sample_env]
  by (simp add: step2.simps start2_def initial2_def handleViewChange_def resetState_def
        sample_env_def message_text_def)

text \<open>
  C7. What the two results screens show in their summary card, given as the numbers
  handed to the formatter: balance, credit count and debit count are the payload's;
  the first screen shows total received as it is and the absolute value of total
  spent; the second shows the absolute values of total received and total spent, each
  after a fixed sign. Nothing in either card depends on the transaction list or on the
  page count.
\<close>

theorem summary_shown:
  "summaryCard (ResultsView \<lparr>summary = s, transactions = ts, pageCount = p\<rparr>) =
     \<lparr>balanceShown = balance s,
      balanceClass = (if balance s \<ge> 0 then ''text-green-500'' else ''text-red-500''),
      crShown = totalReceived s, crCount = creditCount s,
      drShown = \<bar>totalSpent s\<bar>, drCount = debitCount s,
      totalShown = totalTransactions s\<rparr> \<and>
   ResultsView2 \<lparr>summary = s, transactions = ts, pageCount = p\<rparr> =
     \<lparr>moneyIn = \<lparr>rowTitle = ''Total Money In'', rowCount = creditCount s,
                 rowSign = ''+'', rowShown = \<bar>totalReceived s\<bar>\<rparr>,
      moneyOut = \<lparr>rowTitle = ''Total Money Out'', rowCount = debitCount s,
                  rowSign = ''-'', rowShown = \<bar>totalSpent s\<bar>\<rparr>,
      highestCreditShown = HighestTransaction (highestCredit s),
      highestDebitShown = HighestTransaction (highestDebit s),
      netBalanceShown = balance s,
      netBalanceClass = (if balance s \<ge> 0 then ''text-green-400'' else ''text-red-400'')\<rparr> \<and>
   summaryCard (ResultsView \<lparr>summary = s, transactions = ts', pageCount = p'\<rparr>) =
     summaryCard (ResultsView \<lparr>summary = s, transactions = ts, pageCount = p\<rparr>) \<and>
   ResultsView2 \<lparr>summary = s, transactions = ts', pageCount = p'\<rparr> =
     ResultsView2 \<lparr>summary = s, transactions = ts, pageCount = p\<rparr>"
  by (simp add: ResultsView_def ResultsView2_def SummaryRow_def)

text \<open>
  As stated, with every total shown exactly as the payload has it, C7 fails on a
  payload whose total spent is negative: both screens show 500 for \<open>-500\<close>.
\<close>

theorem summary_shown_counterexample:
  "totalSpent (summary sample_result) = - 500 \<and>
   drShown (summaryCard (ResultsView sample_result)) = 500 \<and>
   drShown (summaryCard (ResultsView sample_result)) \<noteq> totalSpent (summary sample_result) \<and>
   rowShown (moneyOut (ResultsView2 sample_result)) = 500 \<and>
   rowShown (moneyOut (ResultsView2 sample_result)) \<noteq> totalSpent (summary sample_result)"
  by (simp add: ResultsView_def ResultsView2_def SummaryRow_def sample_result_def)

text \<open>
  C4. The analysis state stays in the set \<open>AnalysisState\<close> of the three values
  \<open>upload\<close>, \<open>analyzing\<close>, \<open>results\<close>: every step of either implementation (file
  select, drop, view change, error dismissal, the resumption of \<open>analyzeStatement\<close>)
  keeps it there, so every reachable state has it there, and each of the three values
  is reached.
\<close>

theorem three_states:
  "(\<forall>sys e sys' effs.
      analysisState (component sys) \<in> AnalysisState \<and> step env e sys = Some (sys', effs) \<longrightarrow>
      analysisState (component sys') \<in> AnalysisState) \<and>
   (\<forall>sys e sys' effs.
      analysisState (component sys) \<in> AnalysisState \<and> step2 env e sys = Some (sys', effs) \<longrightarrow>
      analysisState (component sys') \<in> AnalysisState) \<and>
   (\<forall>es sys. run env es start = Some sys \<longrightarrow> analysisState (component sys) \<in> AnalysisState) \<and>
   (\<forall>es sys. run2 env es start2 = Some sys \<longrightarrow> analysisState (component sys) \<in> AnalysisState) \<and>
   (\<forall>a \<in> AnalysisState. \<exists>es sys. run env es start = Some sys \<and> analysisState (component sys) = a) \<and>
   (\<forall>a \<in> AnalysisState. \<exists>es sys. run2 env es start2 = Some sys \<and> analysisState (component sys) = a)"
proof (intro conjI allI impI ballI)
  fix sys e sys' effs
  assume "analysisState (component sys) \<in> AnalysisState \<and> step env e sys = Some (sys', effs)"
  then show "analysisState (component sys') \<in> AnalysisState"
    using step_keeps_AnalysisState by blast
next
  fix sys e sys' effs
  assume "analysisState (component sys) \<in> AnalysisState \<and> step2 env e sys = Some (sys', effs)"
  then show "analysisState (component sys') \<in> AnalysisState"
    using step2_keeps_AnalysisState by blast
next
  fix es sys
  assume "run env es start = Some sys"
  moreover have "analysisState (component start) \<in> AnalysisState"
    by (simp add: start_def initial_def AnalysisState_def)
  ultimately show "analysisState (component sys) \<in> AnalysisState"
    using run_keeps_AnalysisState by blast
next
  fix es sys
  assume "run2 env es start2 = Some sys"
  moreover have "analysisState (component start2) \<in> AnalysisState"
    by (simp add: start2_def initial2_def AnalysisState_def)
  ultimately show "analysisState (component sys) \<in> AnalysisState"
    using run2_keeps_AnalysisState by blast
next
  fix a
  assume a: "a \<in> AnalysisState"
  have u: "run env [] start = Some start \<and> analysisState (component start) = ''upload''"
    by (simp add: start_def initial_def)
  have g: "\<exists>sys. run env [ViewChange ''kotak-analysis'', FileSelect (Some statement_pdf)] start
             = Some sys \<and> analysisState (component sys) = ''analyzing''"
    by (simp add: step.simps start_def initial_def upload_mounted_def renderCurrentView_def
        renderContent_def handleFileSelect_def statement_pdf_def analyzeStatement_begin_def
        sample_env_def message_text_def)
  have r: "\<exists>sys. run env [ViewChange ''kotak-analysis'', FileSelect (Some statement_pdf),
                Settled (Inr ok_response)] start
             = Some sys \<and> analysisState (component sys) = ''results''"
    by (simp add: step.simps start_def initial_def upload_mounted_def renderCurrentView_def
        renderContent_def handleFileSelect_def statement_pdf_def analyzeStatement_begin_def
        analyzeStatement_resume_def analyze_try_def ok_response_def
        sample_env_def message_text_def)
  from a u g r show "\<exists>es sys. run env es start = Some sys \<and> analysisState (component sys) = a"
    unfolding AnalysisState_def by blast
next
  fix a
  assume a: "a \<in> AnalysisState"
  have u: "run2 env [] start2 = Some start2 \<and> analysisState (component start2) = ''upload''"
    by (simp add: start2_def initial2_def)
  have g: "\<exists>sys. run2 env [ViewChange ''kotak'', FileSelect (Some statement_pdf)] start2
             = Some sys \<and> analysisState (component sys) = ''analyzing''"
    by (simp add: step2.simps start2_def initial2_def upload_mounted2_def renderContent2_def
        renderContent_def handleFileSelect2_def statement_pdf_def analyzeStatement2_begin_def
        handleViewChange_def resetState_def
        sample_env_def message_text_def)
  have r: "\<exists>sys. run2 env [ViewChange ''kotak'', FileSelect (Some statement_pdf),
                Settled (Inr ok_response)] start2
             = Some sys \<and> analysisState (component sys) = ''results''"
    by (simp add: step2.simps start2_def initial2_def upload_mounted2_def renderContent2_def
        renderContent_def handleFileSelect2_def statement_pdf_def analyzeStatement2_begin_def
        handleViewChange_def resetState_def
        analyzeStatement2_resume_def analyze_try2_def ok_response_def
        sample_env_def message_text_def)
  from a u g r show "\<exists>es sys. run2 env es start2 = Some sys \<and> analysisState (component sys) = a"
    unfolding AnalysisState_def by blast
qed

theorem three_states_witness:
  "run2 sample_env [ViewChange ''kotak'', FileSelect (Some statement_pdf), ViewChange ''home'',
              Settled (Inr ok_response)] start2 =
     Some \<lparr>component = initial2\<lparr>analysisState := ''results'',
                                 analysisResults := JObj [(''pageCount'', JNum 2)]\<rparr>,
           awaiting = 0\<rparr> \<and>
   ''results'' \<in> AnalysisState \<and>
   step sample_env (Settled (Inr error_response)) \<lparr>component = initial\<lparr>analysisState := ''analyzing''\<rparr>, awaiting = 1\<rparr> =
     Some (\<lparr>component = initial, awaiting = 0\<rparr>, [Alert ''Analysis failed: Not a statement''])"
proof -
  let ?sys2 = "\<lparr>component = initial2\<lparr>analysisState := ''results'',
                                 analysisResults := JObj [(''pageCount'', JNum 2)]\<rparr>,
           awaiting = 0\<rparr>"
  let ?sys = "\<lparr>component = initial\<lparr>analysisState := ''analyzing''\<rparr>, awaiting = 1\<rparr>"
  have r: "run2 sample_env [ViewChange ''kotak'', FileSelect (Some statement_pdf), ViewChange ''home'',
              Settled (Inr ok_response)] start2 = Some ?sys2"
    by (simp add: step2.simps start2_def initial2_def upload_mounted2_def
        renderContent2_def renderContent_def handleFileSelect2_def statement_pdf_def
        analyzeStatement2_begin_def handleViewChange_def resetState_def
        analyzeStatement2_resume_def analyze_try2_def ok_response_def
        sample_env_def message_text_def)
  have s: "step sample_env (Settled (Inr error_response)) ?sys =
     Some (\<lparr>component = initial, awaiting = 0\<rparr>, [Alert ''Analysis failed: Not a statement''])"
    by (simp add: step.simps initial_def error_response_def
        analyzeStatement_resume_def analyze_try_def or_literal_def
        sample_env_def message_text_def)
  from three_states [of sample_env] r have "analysisState (component ?sys2) \<in> AnalysisState"
    by blast
  with r s show ?thesis by simp
qed



text \<open>
  C5. One call of \<open>analyzeStatement\<close>, from its start to its end, performs exactly one
  fetch, and that one goes to \<open>/analyze\<close>. A step sends one request when it is a file
  select or a drop whose file is accepted, and none otherwise: a refused file, a view
  change, the dismissal of the error and the resumption of \<open>analyzeStatement\<close> send
  nothing.
\<close>

theorem single_request:
  "filter is_Fetch (snd (analyzeStatement env f r s)) =
     [Fetch \<lparr>url = backendUrl env @ ''/analyze'', method = ''POST'',
             body = [(''file'', Blob f), (''platform'', Text (platform (currentView s)))]\<rparr>] \<and>
   filter is_Fetch (snd (analyzeStatement2 env (Some f) bank r s2)) =
     [Fetch \<lparr>url = apiEndpoint env @ ''/analyze'', method = ''POST'',
             body = [(''file'', Blob f), (''bank'', Text bank)]\<rparr>] \<and>
   (\<forall>sys e sys' effs.
      step env e sys = Some (sys', effs) \<longrightarrow>
      length (filter is_Fetch effs) =
        (case e of FileSelect fo \<Rightarrow> if accepted fo then 1 else 0
                 | Drop fo \<Rightarrow> if accepted fo then 1 else 0
                 | ViewChange v \<Rightarrow> 0 | DismissError \<Rightarrow> 0 | Settled x \<Rightarrow> 0)) \<and>
   (\<forall>sys e sys' effs.
      step2 env e sys = Some (sys', effs) \<longrightarrow>
      length (filter is_Fetch effs) =
        (case e of FileSelect fo \<Rightarrow> if accepted2 (component sys) fo then 1 else 0
                 | Drop fo \<Rightarrow> if accepted2 (component sys) fo then 1 else 0
                 | ViewChange v \<Rightarrow> 0 | DismissError \<Rightarrow> 0 | Settled x \<Rightarrow> 0))"
proof (intro conjI allI impI)
  show "filter is_Fetch (snd (analyzeStatement env f r s)) =
     [Fetch \<lparr>url = backendUrl env @ ''/analyze'', method = ''POST'',
             body = [(''file'', Blob f), (''platform'', Text (platform (currentView s)))]\<rparr>]"
    by (rule analyzeStatement_fetches)
next
  show "filter is_Fetch (snd (analyzeStatement2 env (Some f) bank r s2)) =
     [Fetch \<lparr>url = apiEndpoint env @ ''/analyze'', method = ''POST'',
             body = [(''file'', Blob f), (''bank'', Text bank)]\<rparr>]"
    by (rule analyzeStatement2_fetches)
next
  fix sys e sys' effs
  assume "step env e sys = Some (sys', effs)"
  from step_launched [OF this] show "length (filter is_Fetch effs) =
        (case e of FileSelect fo \<Rightarrow> if accepted fo then 1 else 0
                 | Drop fo \<Rightarrow> if accepted fo then 1 else 0
                 | ViewChange v \<Rightarrow> 0 | DismissError \<Rightarrow> 0 | Settled x \<Rightarrow> 0)"
    by (simp add: launched_filter)
next
  fix sys e sys' effs
  assume "step2 env e sys = Some (sys', effs)"
  from step2_launched [OF this] show "length (filter is_Fetch effs) =
        (case e of FileSelect fo \<Rightarrow> if accepted2 (component sys) fo then 1 else 0
                 | Drop fo \<Rightarrow> if accepted2 (component sys) fo then 1 else 0
                 | ViewChange v \<Rightarrow> 0 | DismissError \<Rightarrow> 0 | Settled x \<Rightarrow> 0)"
    by (simp add: launched_filter)
qed

theorem single_request_witness:
  "step sample_env (Drop (Some statement_pdf))
     \<lparr>component = initial\<lparr>currentView := ''phonepe-analysis''\<rparr>, awaiting = 0\<rparr> =
     Some (\<lparr>component = initial\<lparr>currentView := ''phonepe-analysis'',
                                  selectedFile := Some statement_pdf,
                                  analysisState := ''analyzing''\<rparr>,
            awaiting = 1\<rparr>,
           [Fetch \<lparr>url = ''http://localhost:8000/analyze'', method = ''POST'',
                   body = [(''file'', Blob statement_pdf), (''platform'', Text ''phonepe'')]\<rparr>]) \<and>
   accepted (Some statement_pdf) \<and>
   length (filter is_Fetch
     [Fetch \<lparr>url = ''http://localhost:8000/analyze'', method = ''POST'',
             body = [(''file'', Blob statement_pdf), (''platform'', Text ''phonepe'')]\<rparr>]) = 1 \<and>
   step2 sample_env (ViewChange ''home'')
     \<lparr>component = initial2\<lparr>currentView := ''kotak'', analysisState := ''analyzing''\<rparr>,
      awaiting = 1\<rparr> =
     Some (\<lparr>component = initial2, awaiting = 1\<rparr>, [])"
proof -
  let ?q = "\<lparr>url = ''http://localhost:8000/analyze'', method = ''POST'',
             body = [(''file'', Blob statement_pdf), (''platform'', Text ''phonepe'')]\<rparr>"
  have st: "step sample_env (Drop (Some statement_pdf))
     \<lparr>component = initial\<lparr>currentView := ''phonepe-analysis''\<rparr>, awaiting = 0\<rparr> =
     Some (\<lparr>component = initial\<lparr>currentView := ''phonepe-analysis'',
                                  selectedFile := Some statement_pdf,
                                  analysisState := ''analyzing''\<rparr>,
            awaiting = 1\<rparr>, [Fetch ?q])"
    by (simp add: step.simps initial_def upload_mounted_def renderCurrentView_def
        renderContent_def handleDrop_def statement_pdf_def analyzeStatement_begin_def
        backendUrl_def or_string_def strip_trailing_slash_def platform_def
        sample_env_def message_text_def)
  have acc: "accepted (Some statement_pdf)"
    by (simp add: accepted_def statement_pdf_def)
  have st2: "step2 sample_env (ViewChange ''home'')
     \<lparr>component = initial2\<lparr>currentView := ''kotak'', analysisState := ''analyzing''\<rparr>,
      awaiting = 1\<rparr> = Some (\<lparr>component = initial2, awaiting = 1\<rparr>, [])"
    by (simp add: step2.simps initial2_def handleViewChange_def resetState_def
        sample_env_def message_text_def)
  note single_request [of sample_env, THEN conjunct2, THEN conjunct2, THEN conjunct1, rule_format, OF st]
  with acc have "length (filter is_Fetch [Fetch ?q]) = 1" by simp
  with st acc st2 show ?thesis by simp
qed

text \<open>
  C3, as far as it holds. When the response is not OK, whatever its body, a call of
  \<open>analyzeStatement\<close> ends with the analysis state \<open>upload\<close> and the stored results as
  they were. The error it raises depends on the body, which is parsed before
  \<open>response.ok\<close> is tested:
  \<^item> a JSON object whose \<open>detail\<close> is a non-empty string: the message is that string;
  \<^item> a JSON object whose \<open>detail\<close> is another truthy value (\<open>true\<close>, a number other
    than zero, an array, an object): the message is the engine's conversion of that
    value to a string, or the conversion's own error;
  \<^item> a JSON value other than \<open>null\<close> with no \<open>detail\<close>, or with one that is \<open>null\<close>,
    \<open>false\<close>, zero or the empty string: the generic message, \<open>Failed to analyze
    statement\<close> in the first implementation, \<open>HTTP error! status:\<close> and the status in
    the second;
  \<^item> the JSON value \<open>null\<close>: the engine's TypeError for reading a property of \<open>null\<close>;
  \<^item> a body that is not JSON: the error of \<open>response.json()\<close>.
  When the response is OK and its body is JSON, the body becomes the stored results
  and the state \<open>results\<close>. All of this holds of the resumption alone, in any state.
\<close>

theorem response_handling:
  "(\<forall>response s f.
      \<not> ok response \<longrightarrow>
      analysisState (fst (analyzeStatement env f (Inr response) s)) = ''upload'' \<and>
      analysisResults (fst (analyzeStatement env f (Inr response) s)) = analysisResults s \<and>
      analysisState (fst (analyzeStatement_resume env (Inr response) s)) = ''upload'' \<and>
      analysisResults (fst (analyzeStatement_resume env (Inr response) s)) = analysisResults s) \<and>
   (\<forall>response s f bank.
      \<not> ok response \<longrightarrow>
      analysisState (fst (analyzeStatement2 env (Some f) bank (Inr response) s)) = ''upload'' \<and>
      analysisResults (fst (analyzeStatement2 env (Some f) bank (Inr response) s)) =
        analysisResults s \<and>
      analysisState (fst (analyzeStatement2_resume env (Inr response) s)) = ''upload'' \<and>
      analysisResults (fst (analyzeStatement2_resume env (Inr response) s)) = analysisResults s) \<and>
   (\<forall>response kvs m.
      \<not> ok response \<and> json response = Inr (JObj kvs) \<and> distinct (map fst kvs) \<and>
      (''detail'', JStr m) \<in> set kvs \<and> m \<noteq> [] \<longrightarrow>
      analyze_try env (Inr response) = Inl (Error m) \<and>
      analyze_try2 env (Inr response) = Inl (Error m)) \<and>
   (\<forall>response kvs v.
      \<not> ok response \<and> json response = Inr (JObj kvs) \<and> distinct (map fst kvs) \<and>
      (''detail'', v) \<in> set kvs \<and>
      (v = JBool True \<or> (\<exists>n. v = JNum n \<and> n \<noteq> 0) \<or> (\<exists>xs. v = JArr xs) \<or>
       (\<exists>kvs'. v = JObj kvs')) \<longrightarrow>
      analyze_try env (Inr response) =
        (case ToString env v of Inl e \<Rightarrow> Inl e | Inr m \<Rightarrow> Inl (Error m)) \<and>
      analyze_try2 env (Inr response) =
        (case ToString env v of Inl e \<Rightarrow> Inl e | Inr m \<Rightarrow> Inl (Error m))) \<and>
   (\<forall>response data.
      \<not> ok response \<and> json response = Inr data \<and>
      ((\<exists>b. data = JBool b) \<or> (\<exists>n. data = JNum n) \<or> (\<exists>s. data = JStr s) \<or>
       (\<exists>xs. data = JArr xs) \<or>
       (\<exists>kvs. data = JObj kvs \<and> ''detail'' \<notin> fst ` set kvs) \<or>
       (\<exists>kvs v. data = JObj kvs \<and> distinct (map fst kvs) \<and> (''detail'', v) \<in> set kvs \<and>
          (v = JNull \<or> v = JBool False \<or> v = JNum 0 \<or> v = JStr []))) \<longrightarrow>
      analyze_try env (Inr response) = Inl (Error ''Failed to analyze statement'') \<and>
      analyze_try2 env (Inr response) =
        Inl (Error (''HTTP error! status: '' @ digits (status response)))) \<and>
   (\<forall>response.
      \<not> ok response \<and> json response = Inr JNull \<longrightarrow>
      analyze_try env (Inr response) = Inl (Error (TypeError_message env ''results'')) \<and>
      analyze_try2 env (Inr response) = Inl (Error (TypeError_message env ''data''))) \<and>
   (\<forall>response e.
      json response = Inl e \<longrightarrow>
      analyze_try env (Inr response) = Inl e \<and> analyze_try2 env (Inr response) = Inl e) \<and>
   (\<forall>response data s f.
      ok response \<and> json response = Inr data \<longrightarrow>
      fst (analyzeStatement env f (Inr response) s) =
        s\<lparr>analysisResults := data, analysisState := ''results''\<rparr> \<and>
      fst (analyzeStatement_resume env (Inr response) s) =
        s\<lparr>analysisResults := data, analysisState := ''results''\<rparr>) \<and>
   (\<forall>response data s f bank.
      ok response \<and> json response = Inr data \<longrightarrow>
      fst (analyzeStatement2 env (Some f) bank (Inr response) s) =
        s\<lparr>analysisResults := data, analysisState := ''results'', errorMessage := None\<rparr> \<and>
      fst (analyzeStatement2_resume env (Inr response) s) =
        s\<lparr>analysisResults := data, analysisState := ''results''\<rparr>)"
proof (intro conjI allI impI)
  fix response :: Response and s :: state and f
  assume n: "\<not> ok response"
  from resume_not_ok [OF n]
  show "analysisState (fst (analyzeStatement env f (Inr response) s)) = ''upload''"
    and "analysisResults (fst (analyzeStatement env f (Inr response) s)) = analysisResults s"
    and "analysisState (fst (analyzeStatement_resume env (Inr response) s)) = ''upload''"
    and "analysisResults (fst (analyzeStatement_resume env (Inr response) s)) = analysisResults s"
    by (simp_all add: analyzeStatement_fst)
next
  fix response :: Response and s :: state2 and f bank
  assume n: "\<not> ok response"
  from resume2_not_ok [OF n]
  show "analysisState (fst (analyzeStatement2 env (Some f) bank (Inr response) s)) = ''upload''"
    and "analysisResults (fst (analyzeStatement2 env (Some f) bank (Inr response) s)) =
        analysisResults s"
    and "analysisState (fst (analyzeStatement2_resume env (Inr response) s)) = ''upload''"
    and "analysisResults (fst (analyzeStatement2_resume env (Inr response) s)) = analysisResults s"
    by (simp_all add: analyzeStatement2_fst)
next
  fix response :: Response and kvs m
  assume "\<not> ok response \<and> json response = Inr (JObj kvs) \<and> distinct (map fst kvs) \<and>
      (''detail'', JStr m) \<in> set kvs \<and> m \<noteq> []"
  then have "analyze_try env (Inr response) = Inl (Error m) \<and>
      analyze_try2 env (Inr response) = Inl (Error m)"
    using thrown_string_detail by blast
  then show "analyze_try env (Inr response) = Inl (Error m)"
    and "analyze_try2 env (Inr response) = Inl (Error m)"
    by simp_all
next
  fix response :: Response and kvs v
  assume a: "\<not> ok response \<and> json response = Inr (JObj kvs) \<and> distinct (map fst kvs) \<and>
      (''detail'', v) \<in> set kvs \<and>
      (v = JBool True \<or> (\<exists>n. v = JNum n \<and> n \<noteq> 0) \<or> (\<exists>xs. v = JArr xs) \<or>
       (\<exists>kvs'. v = JObj kvs'))"
  then have n: "\<not> ok response" and j: "json response = Inr (JObj kvs)"
    and d: "distinct (map fst kvs)" and m: "(''detail'', v) \<in> set kvs"
    and v: "v = JBool True \<or> (\<exists>n. v = JNum n \<and> n \<noteq> 0) \<or> (\<exists>xs. v = JArr xs) \<or>
       (\<exists>kvs'. v = JObj kvs')"
    by simp_all
  from thrown_other_detail [OF n j d m v]
  show "analyze_try env (Inr response) =
        (case ToString env v of Inl e \<Rightarrow> Inl e | Inr m \<Rightarrow> Inl (Error m))"
    and "analyze_try2 env (Inr response) =
        (case ToString env v of Inl e \<Rightarrow> Inl e | Inr m \<Rightarrow> Inl (Error m))"
    by simp_all
next
  fix response :: Response and data
  assume a: "\<not> ok response \<and> json response = Inr data \<and>
      ((\<exists>b. data = JBool b) \<or> (\<exists>n. data = JNum n) \<or> (\<exists>s. data = JStr s) \<or>
       (\<exists>xs. data = JArr xs) \<or>
       (\<exists>kvs. data = JObj kvs \<and> ''detail'' \<notin> fst ` set kvs) \<or>
       (\<exists>kvs v. data = JObj kvs \<and> distinct (map fst kvs) \<and> (''detail'', v) \<in> set kvs \<and>
          (v = JNull \<or> v = JBool False \<or> v = JNum 0 \<or> v = JStr [])))"
  then have n: "\<not> ok response" and j: "json response = Inr data"
    and c: "(\<exists>b. data = JBool b) \<or> (\<exists>n. data = JNum n) \<or> (\<exists>s. data = JStr s) \<or>
       (\<exists>xs. data = JArr xs) \<or>
       (\<exists>kvs. data = JObj kvs \<and> ''detail'' \<notin> fst ` set kvs) \<or>
       (\<exists>kvs v. data = JObj kvs \<and> distinct (map fst kvs) \<and> (''detail'', v) \<in> set kvs \<and>
          (v = JNull \<or> v = JBool False \<or> v = JNum 0 \<or> v = JStr []))"
    by simp_all
  from thrown_generic [OF n j c]
  show "analyze_try env (Inr response) = Inl (Error ''Failed to analyze statement'')"
    and "analyze_try2 env (Inr response) =
        Inl (Error (''HTTP error! status: '' @ digits (status response)))"
    by simp_all
next
  fix response :: Response
  assume "\<not> ok response \<and> json response = Inr JNull"
  then have "analyze_try env (Inr response) = Inl (Error (TypeError_message env ''results'')) \<and>
      analyze_try2 env (Inr response) = Inl (Error (TypeError_message env ''data''))"
    using thrown_null by blast
  then show "analyze_try env (Inr response) = Inl (Error (TypeError_message env ''results''))"
    and "analyze_try2 env (Inr response) = Inl (Error (TypeError_message env ''data''))"
    by simp_all
next
  fix response :: Response and e
  assume "json response = Inl e"
  from thrown_not_json [OF this]
  show "analyze_try env (Inr response) = Inl e" and "analyze_try2 env (Inr response) = Inl e"
    by simp_all
next
  fix response :: Response and data and s :: state and f
  assume a: "ok response \<and> json response = Inr data"
  then have r: "\<And>s. fst (analyzeStatement_resume env (Inr response) s) =
        s\<lparr>analysisResults := data, analysisState := ''results''\<rparr>"
    using resume_ok by blast
  show "fst (analyzeStatement env f (Inr response) s) =
        s\<lparr>analysisResults := data, analysisState := ''results''\<rparr>"
    by (simp add: analyzeStatement_fst r)
  show "fst (analyzeStatement_resume env (Inr response) s) =
        s\<lparr>analysisResults := data, analysisState := ''results''\<rparr>"
    by (rule r)
next
  fix response :: Response and data and s :: state2 and f bank
  assume a: "ok response \<and> json response = Inr data"
  then have r: "\<And>s. fst (analyzeStatement2_resume env (Inr response) s) =
        s\<lparr>analysisResults := data, analysisState := ''results''\<rparr>"
    using resume2_ok by blast
  show "fst (analyzeStatement2 env (Some f) bank (Inr response) s) =
        s\<lparr>analysisResults := data, analysisState := ''results'', errorMessage := None\<rparr>"
    by (simp add: analyzeStatement2_fst r)
  show "fst (analyzeStatement2_resume env (Inr response) s) =
        s\<lparr>analysisResults := data, analysisState := ''results''\<rparr>"
    by (rule r)
qed

text \<open>
  C3 as stated, with the message always the \<open>detail\<close> of the payload or the generic
  one, fails on a non-OK response whose body is not JSON, and on one whose body is
  \<open>null\<close>: the error raised is the parser's, or the engine's TypeError.
\<close>

theorem response_handling_counterexample:
  "ok gateway_response = False \<and>
   analyze_try sample_env (Inr gateway_response) =
     Inl (Error ''Unexpected token < in JSON at position 0'') \<and>
   analyze_try2 sample_env (Inr gateway_response) =
     Inl (Error ''Unexpected token < in JSON at position 0'') \<and>
   analyze_try sample_env (Inr gateway_response) \<noteq> Inl (Error ''Failed to analyze statement'') \<and>
   analyze_try2 sample_env (Inr gateway_response) \<noteq> Inl (Error ''HTTP error! status: 502'') \<and>
   ok null_response = False \<and>
   analyze_try sample_env (Inr null_response) =
     Inl (Error ''Cannot read properties of null (reading 'detail')'') \<and>
   analyze_try2 sample_env (Inr null_response) =
     Inl (Error ''Cannot read properties of null (reading 'detail')'') \<and>
   snd (analyzeStatement_resume sample_env (Inr gateway_response) initial) =
     [Alert ''Analysis failed: Unexpected token < in JSON at position 0''] \<and>
   errorMessage (fst (analyzeStatement2_resume sample_env (Inr gateway_response) initial2)) =
     Some ''Unexpected token < in JSON at position 0''"
  by (simp add: analyze_try_def analyze_try2_def gateway_response_def null_response_def
      sample_env_def analyzeStatement_resume_def analyzeStatement2_resume_def or_string_def)

theorem response_handling_witness:
  "analyze_try sample_env (Inr error_response) = Inl (Error ''Not a statement'') \<and>
   analyze_try2 sample_env (Inr error_response) = Inl (Error ''Not a statement'') \<and>
   analyze_try sample_env
     (Inr \<lparr>ok = False, status = 422,
           json = Inr (JObj [(''detail'', JStr ''Unsupported bank''), (''code'', JNum 7)])\<rparr>) =
     Inl (Error ''Unsupported bank'') \<and>
   analyze_try sample_env
     (Inr \<lparr>ok = False, status = 422, json = Inr (JObj [(''detail'', JObj [])])\<rparr>) =
     Inl (Error ''[object Object]'') \<and>
   analyze_try sample_env (Inr plain_response) = Inl (Error ''Failed to analyze statement'') \<and>
   analyze_try2 sample_env (Inr plain_response) = Inl (Error ''HTTP error! status: 404'') \<and>
   analyze_try2 sample_env
     (Inr \<lparr>ok = False, status = 503, json = Inr (JObj [(''detail'', JStr [])])\<rparr>) =
     Inl (Error ''HTTP error! status: 503'') \<and>
   analyze_try sample_env (Inr null_response) =
     Inl (Error (TypeError_message sample_env ''results'')) \<and>
   analyze_try2 sample_env (Inr gateway_response) =
     Inl (Error ''Unexpected token < in JSON at position 0'') \<and>
   fst (analyzeStatement sample_env statement_pdf (Inr error_response)
          (initial\<lparr>analysisResults := JObj []\<rparr>)) = initial\<lparr>analysisResults := JObj []\<rparr> \<and>
   fst (analyzeStatement2_resume sample_env (Inr ok_response) initial2) =
     initial2\<lparr>analysisResults := JObj [(''pageCount'', JNum 2)], analysisState := ''results''\<rparr>"
proof -
  note rh = response_handling [of sample_env]
  let ?r1 = "\<lparr>ok = False, status = 422,
           json = Inr (JObj [(''detail'', JStr ''Unsupported bank''), (''code'', JNum 7)])\<rparr>"
  let ?r2 = "\<lparr>ok = False, status = 422, json = Inr (JObj [(''detail'', JObj [])])\<rparr>"
  let ?r3 = "\<lparr>ok = False, status = 503, json = Inr (JObj [(''detail'', JStr [])])\<rparr>"
  have h0: "\<not> ok error_response \<and>
            json error_response = Inr (JObj [(''detail'', JStr ''Not a statement'')]) \<and>
            distinct (map fst [(''detail'', JStr ''Not a statement'')]) \<and>
            (''detail'', JStr ''Not a statement'') \<in> set [(''detail'', JStr ''Not a statement'')] \<and>
            ''Not a statement'' \<noteq> []"
    by (simp add: error_response_def)
  note c3 = rh [THEN conjunct2, THEN conjunct2, THEN conjunct1, rule_format]
  from c3 [OF h0]
  have w0: "analyze_try sample_env (Inr error_response) = Inl (Error ''Not a statement'') \<and>
            analyze_try2 sample_env (Inr error_response) = Inl (Error ''Not a statement'')" .
  have h1: "\<not> ok ?r1 \<and>
            json ?r1 = Inr (JObj [(''detail'', JStr ''Unsupported bank''), (''code'', JNum 7)]) \<and>
            distinct (map fst [(''detail'', JStr ''Unsupported bank''), (''code'', JNum 7)]) \<and>
            (''detail'', JStr ''Unsupported bank'')
              \<in> set [(''detail'', JStr ''Unsupported bank''), (''code'', JNum 7)] \<and>
            ''Unsupported bank'' \<noteq> []"
    by simp
  from c3 [OF h1]
  have w1: "analyze_try sample_env (Inr ?r1) = Inl (Error ''Unsupported bank'')" by simp
  have h2: "\<not> ok ?r2 \<and> json ?r2 = Inr (JObj [(''detail'', JObj [])]) \<and>
            distinct (map fst [(''detail'', JObj [])]) \<and>
            (''detail'', JObj []) \<in> set [(''detail'', JObj [])] \<and>
            (JObj [] = JBool True \<or> (\<exists>n. JObj [] = JNum n \<and> n \<noteq> 0) \<or>
             (\<exists>xs. JObj [] = JArr xs) \<or> (\<exists>kvs'. JObj [] = JObj kvs'))"
    by simp
  note c4 = rh [THEN conjunct2, THEN conjunct2, THEN conjunct2, THEN conjunct1, rule_format]
  from c4 [OF h2]
  have w2: "analyze_try sample_env (Inr ?r2) = Inl (Error ''[object Object]'')"
    by (simp add: sample_env_def)
  note c5 = rh [THEN conjunct2, THEN conjunct2, THEN conjunct2, THEN conjunct2, THEN conjunct1,
      rule_format]
  have h3: "\<not> ok plain_response \<and> json plain_response = Inr (JObj [(''error'', JStr ''no'')]) \<and>
            ((\<exists>b. JObj [(''error'', JStr ''no'')] = JBool b) \<or>
             (\<exists>n. JObj [(''error'', JStr ''no'')] = JNum n) \<or>
             (\<exists>s. JObj [(''error'', JStr ''no'')] = JStr s) \<or>
             (\<exists>xs. JObj [(''error'', JStr ''no'')] = JArr xs) \<or>
             (\<exists>kvs. JObj [(''error'', JStr ''no'')] = JObj kvs \<and> ''detail'' \<notin> fst ` set kvs) \<or>
             (\<exists>kvs v. JObj [(''error'', JStr ''no'')] = JObj kvs \<and> distinct (map fst kvs) \<and>
                (''detail'', v) \<in> set kvs \<and>
                (v = JNull \<or> v = JBool False \<or> v = JNum 0 \<or> v = JStr [])))"
    by (simp add: plain_response_def)
  from c5 [OF h3]
  have w3: "analyze_try sample_env (Inr plain_response) = Inl (Error ''Failed to analyze statement'') \<and>
            analyze_try2 sample_env (Inr plain_response) = Inl (Error ''HTTP error! status: 404'')"
    by (simp add: plain_response_def digits.simps)
  have h4: "\<not> ok ?r3 \<and> json ?r3 = Inr (JObj [(''detail'', JStr [])]) \<and>
            ((\<exists>b. JObj [(''detail'', JStr [])] = JBool b) \<or>
             (\<exists>n. JObj [(''detail'', JStr [])] = JNum n) \<or>
             (\<exists>s. JObj [(''detail'', JStr [])] = JStr s) \<or>
             (\<exists>xs. JObj [(''detail'', JStr [])] = JArr xs) \<or>
             (\<exists>kvs. JObj [(''detail'', JStr [])] = JObj kvs \<and> ''detail'' \<notin> fst ` set kvs) \<or>
             (\<exists>kvs v. JObj [(''detail'', JStr [])] = JObj kvs \<and> distinct (map fst kvs) \<and>
                (''detail'', v) \<in> set kvs \<and>
                (v = JNull \<or> v = JBool False \<or> v = JNum 0 \<or> v = JStr [])))"
    by simp
  from c5 [OF h4]
  have w4: "analyze_try2 sample_env (Inr ?r3) = Inl (Error ''HTTP error! status: 503'')"
    by (simp add: digits.simps)
  have h5: "\<not> ok null_response \<and> json null_response = Inr JNull"
    by (simp add: null_response_def)
  note c6 = rh [THEN conjunct2, THEN conjunct2, THEN conjunct2, THEN conjunct2, THEN conjunct2,
      THEN conjunct1, rule_format]
  from c6 [OF h5]
  have w5: "analyze_try sample_env (Inr null_response) =
              Inl (Error (TypeError_message sample_env ''results''))" by simp
  have h6: "json gateway_response = Inl (Error ''Unexpected token < in JSON at position 0'')"
    by (simp add: gateway_response_def)
  note c7 = rh [THEN conjunct2, THEN conjunct2, THEN conjunct2, THEN conjunct2, THEN conjunct2,
      THEN conjunct2, THEN conjunct1, rule_format]
  from c7 [OF h6]
  have w6: "analyze_try2 sample_env (Inr gateway_response) =
              Inl (Error ''Unexpected token < in JSON at position 0'')" by simp
  from h0 have n: "\<not> ok error_response" by simp
  note c1 = rh [THEN conjunct1, rule_format, OF n,
      of statement_pdf "initial\<lparr>analysisResults := JObj []\<rparr>"]
  then have u: "analysisState (fst (analyzeStatement sample_env statement_pdf (Inr error_response)
          (initial\<lparr>analysisResults := JObj []\<rparr>))) = ''upload''"
    by simp
  have v: "fst (analyzeStatement sample_env statement_pdf (Inr error_response)
          (initial\<lparr>analysisResults := JObj []\<rparr>)) = initial\<lparr>analysisResults := JObj []\<rparr>"
    by (simp add: analyzeStatement_fst analyzeStatement_resume_def w0 initial_def)
  have k: "ok ok_response \<and> json ok_response = Inr (JObj [(''pageCount'', JNum 2)])"
    by (simp add: ok_response_def)
  note c9 = rh [THEN conjunct2, THEN conjunct2, THEN conjunct2, THEN conjunct2, THEN conjunct2,
      THEN conjunct2, THEN conjunct2, THEN conjunct2, rule_format, OF k]
  then have w: "fst (analyzeStatement2_resume sample_env (Inr ok_response) initial2) =
     initial2\<lparr>analysisResults := JObj [(''pageCount'', JNum 2)], analysisState := ''results''\<rparr>"
    by simp
  from w0 w1 w2 w3 w4 w5 w6 v w show ?thesis by simp
qed




end
